theory Spec2Isabelle
  imports Main "HOL-Library.Word"
begin

unbundle bit_operations_syntax

section \<open>Data model (the type declarations of package errors)\<close>

text \<open>
  Go strings are byte strings, rendered as \<open>string\<close>. A Go slice is either \<open>nil\<close> or a
  (possibly empty) sequence: \<open>None\<close> is the nil slice, \<open>Some []\<close> what \<open>make([]T, 0)\<close>
  and \<open>[]T{}\<close> give. \<open>len\<close> of the nil slice is 0.
\<close>

type_synonym 'a slice = "'a list option"

definition len :: "'a slice \<Rightarrow> nat" where
  "len xs = (case xs of None \<Rightarrow> 0 | Some ys \<Rightarrow> length ys)"

definition elems :: "'a slice \<Rightarrow> 'a list" where
  "elems xs = (case xs of None \<Rightarrow> [] | Some ys \<Rightarrow> ys)"

text \<open>
  \<open>append(s, t...)\<close>: the elements of \<open>t\<close> after those of \<open>s\<close>. Appending nothing to
  the nil slice leaves it nil; in every other case the result is a non-nil slice.
\<close>

definition go_append :: "'a slice \<Rightarrow> 'a slice \<Rightarrow> 'a slice" where
  "go_append s t =
     (case s of
        None \<Rightarrow> (if elems t = [] then None else Some (elems t))
      | Some ys \<Rightarrow> Some (ys @ elems t))"

type_synonym ViolationErrorType = string

definition ViolationErrorTypeRequired :: ViolationErrorType where
  "ViolationErrorTypeRequired = ''REQUIRED''"

definition ViolationErrorTypeOneOf :: ViolationErrorType where
  "ViolationErrorTypeOneOf = ''ONEOF''"

definition ViolationErrorTypeUUID :: ViolationErrorType where
  "ViolationErrorTypeUUID = ''UUID''"

definition ViolationErrorTypeMin :: ViolationErrorType where
  "ViolationErrorTypeMin = ''MIN''"

definition ViolationErrorTypeMax :: ViolationErrorType where
  "ViolationErrorTypeMax = ''MAX''"

definition ViolationErrorTypeEmail :: ViolationErrorType where
  "ViolationErrorTypeEmail = ''EMAIL''"

definition ViolationErrorTypeDate :: ViolationErrorType where
  "ViolationErrorTypeDate = ''DATE''"

definition ViolationErrorTypeRequiredIf :: ViolationErrorType where
  "ViolationErrorTypeRequiredIf = ''REQUIRED_IF''"

text \<open>
  The fields \<open>Type\<close> and \<open>Message\<close> of \<open>ValidationError\<close> are \<open>VType\<close> and \<open>VMessage\<close> here,
  apart from the fields of the same names of \<open>Error\<close>.
\<close>

record ValidationError =
  VType :: ViolationErrorType
  Field :: string
  VMessage :: string

text \<open>Run-time panics of the Go code are values of the model.\<close>

datatype panic = NilDereference | UncomparableTypes

subsection \<open>Values of other error types, and Go's \<open>==\<close> on them\<close>

text \<open>
  \<open>Is\<close> compares the wrapped error with the target by \<open>==\<close>, and any type with an \<open>Error\<close>
  method may be wrapped, so the comparison is modelled as the language defines it. A type
  is given by its underlying structure; function, slice and map types are not comparable,
  an array type is comparable if its element type is, a struct type if all its field types
  are (the blank ones too).
\<close>

datatype go_type =
    TBool | TInt | TFloat32 | TFloat64 | TComplex64 | TComplex128 | TString
  | TPointer | TChan | TFunc | TSlice | TMap | TInterface
  | TArray nat go_type
  | TStruct "go_type list"

fun comparable :: "go_type \<Rightarrow> bool" and all_comparable :: "go_type list \<Rightarrow> bool" where
  "comparable TFunc = False"
| "comparable TSlice = False"
| "comparable TMap = False"
| "comparable (TArray n t) = comparable t"
| "comparable (TStruct ts) = all_comparable ts"
| "comparable t = True"
| "all_comparable [] = True"
| "all_comparable (t # ts) = (comparable t \<and> all_comparable ts)"

text \<open>
  A dynamic type is identified by its name, package included (the type's literal if it has
  no name), together with its underlying structure.
\<close>

datatype dyn_type = DynType (type_name: string) (underlying: go_type)

text \<open>
  The values. A floating-point number is its IEEE 754 bit pattern, a pointer or channel
  the address it holds (\<open>None\<close> for nil), a function, slice or map value is opaque, a value
  of interface type is nil or a dynamic type with a value of it, a struct is the list of
  its fields in source order, each marked as blank (\<open>_\<close>) or not.
\<close>

datatype go_value =
    VBool bool
  | VInt int
  | VFloat32 "32 word"
  | VFloat64 "64 word"
  | VComplex64 "32 word" "32 word"
  | VComplex128 "64 word" "64 word"
  | VString string
  | VPointer "nat option"
  | VChan "nat option"
  | VOpaque
  | VIfaceNil
  | VIface dyn_type go_value
  | VArray "go_value list"
  | VStruct "(bool \<times> go_value) list"

text \<open>
  Floating-point \<open>==\<close>: a NaN equals nothing, itself included; the two zeros are equal;
  otherwise the numbers are equal exactly when their bit patterns are.
\<close>

definition float32_eq :: "32 word \<Rightarrow> 32 word \<Rightarrow> bool" where
  "float32_eq a b =
     (let nan = (\<lambda>w. w AND 0x7F800000 = 0x7F800000 \<and> w AND 0x007FFFFF \<noteq> 0);
          zero = (\<lambda>w. w AND 0x7FFFFFFF = 0)
      in \<not> nan a \<and> \<not> nan b \<and> (a = b \<or> (zero a \<and> zero b)))"

definition float64_eq :: "64 word \<Rightarrow> 64 word \<Rightarrow> bool" where
  "float64_eq a b =
     (let nan = (\<lambda>w. w AND 0x7FF0000000000000 = 0x7FF0000000000000 \<and> w AND 0x000FFFFFFFFFFFFF \<noteq> 0);
          zero = (\<lambda>w. w AND 0x7FFFFFFFFFFFFFFF = 0)
      in \<not> nan a \<and> \<not> nan b \<and> (a = b \<or> (zero a \<and> zero b)))"

text \<open>
  \<open>value_eq x y\<close> is \<open>x == y\<close> for two values of one comparable type. Two interface values
  are equal if both are nil, or if their dynamic types are identical and their values
  equal; the comparison panics if that dynamic type is not comparable. Array elements and
  the non-blank fields of a struct are compared in order, and the comparison stops at the
  first pair that differs, so that a panic further on is not reached. Values of different
  shapes do not belong to one type; the model gives \<open>false\<close> there. Two pointers are equal
  if they hold the same address; for pointers to distinct zero-size variables the language
  leaves the answer open, and here they are distinct addresses.
\<close>

fun value_eq :: "go_value \<Rightarrow> go_value \<Rightarrow> panic + bool"
  and elems_eq :: "go_value list \<Rightarrow> go_value list \<Rightarrow> panic + bool"
  and fields_eq :: "(bool \<times> go_value) list \<Rightarrow> (bool \<times> go_value) list \<Rightarrow> panic + bool" where
  "value_eq (VBool a) y = (case y of VBool b \<Rightarrow> Inr (a = b) | _ \<Rightarrow> Inr False)"
| "value_eq (VInt a) y = (case y of VInt b \<Rightarrow> Inr (a = b) | _ \<Rightarrow> Inr False)"
| "value_eq (VFloat32 a) y = (case y of VFloat32 b \<Rightarrow> Inr (float32_eq a b) | _ \<Rightarrow> Inr False)"
| "value_eq (VFloat64 a) y = (case y of VFloat64 b \<Rightarrow> Inr (float64_eq a b) | _ \<Rightarrow> Inr False)"
| "value_eq (VComplex64 a a') y =
     (case y of VComplex64 b b' \<Rightarrow> Inr (float32_eq a b \<and> float32_eq a' b') | _ \<Rightarrow> Inr False)"
| "value_eq (VComplex128 a a') y =
     (case y of VComplex128 b b' \<Rightarrow> Inr (float64_eq a b \<and> float64_eq a' b') | _ \<Rightarrow> Inr False)"
| "value_eq (VString a) y = (case y of VString b \<Rightarrow> Inr (a = b) | _ \<Rightarrow> Inr False)"
| "value_eq (VPointer a) y = (case y of VPointer b \<Rightarrow> Inr (a = b) | _ \<Rightarrow> Inr False)"
| "value_eq (VChan a) y = (case y of VChan b \<Rightarrow> Inr (a = b) | _ \<Rightarrow> Inr False)"
| "value_eq VOpaque y = Inl UncomparableTypes"
| "value_eq VIfaceNil y = Inr (y = VIfaceNil)"
| "value_eq (VIface t v) y =
     (case y of
        VIface t' v' \<Rightarrow>
          if t = t'
          then (if comparable (underlying t) then value_eq v v' else Inl UncomparableTypes)
          else Inr False
      | _ \<Rightarrow> Inr False)"
| "value_eq (VArray xs) y = (case y of VArray ys \<Rightarrow> elems_eq xs ys | _ \<Rightarrow> Inr False)"
| "value_eq (VStruct fs) y = (case y of VStruct gs \<Rightarrow> fields_eq fs gs | _ \<Rightarrow> Inr False)"
| "elems_eq [] ys = Inr True"
| "elems_eq (x # xs) ys =
     (case ys of
        [] \<Rightarrow> Inr False
      | y # ys' \<Rightarrow>
          (case value_eq x y of
             Inl p \<Rightarrow> Inl p
           | Inr eq \<Rightarrow> if eq then elems_eq xs ys' else Inr False))"
| "fields_eq [] gs = Inr True"
| "fields_eq (f # fs) gs =
     (case gs of
        [] \<Rightarrow> Inr False
      | g # gs' \<Rightarrow>
          if fst f then fields_eq fs gs'
          else (case value_eq (snd f) (snd g) of
                  Inl p \<Rightarrow> Inl p
                | Inr eq \<Rightarrow> if eq then fields_eq fs gs' else Inr False))"

subsection \<open>The interface type \<open>error\<close> and the struct \<open>Error\<close>\<close>

text \<open>
  A value of Go's interface type \<open>error\<close>. It is the nil interface, or it carries a
  dynamic type and a value of that type:
  \<^item> \<open>ErrorPtr p\<close>: the dynamic type is \<open>*Error\<close>, the value the pointer \<open>p\<close>
    (\<open>None\<close> is the nil pointer, which still makes a non-nil interface value);
  \<^item> \<open>Foreign t v txt\<close>: any other dynamic type \<open>t\<close>, with the value \<open>v\<close> of that type and
    the text \<open>txt\<close> its own \<open>Error\<close> method returns.
\<close>

type_synonym addr = nat

datatype error =
    NilError
  | ErrorPtr "addr option"
  | Foreign dyn_type go_value string

record Error =
  Type :: string
  Code :: "64 word"
  Message :: string
  Violations :: "ValidationError slice"
  Err :: error
  StackTraces :: "string slice"

section \<open>The store\<close>

text \<open>
  Every \<open>*Error\<close> is a pointer, and \<open>Violations\<close> in \<^verbatim>\<open>error.go\<close> writes through one, so
  the objects live in a store: \<open>heap\<close> maps an address to the object there, \<open>nextp\<close> is
  the next address \<open>&Error{...}\<close> hands out. Go is garbage collected: a non-nil pointer
  always points to an allocated object, that is, to an address below \<open>nextp\<close>.
\<close>

record memory =
  heap :: "addr \<Rightarrow> Error"
  nextp :: addr

definition alloc :: "Error \<Rightarrow> 'a memory_scheme \<Rightarrow> addr \<times> 'a memory_scheme" where
  "alloc e s = (nextp s, s\<lparr>heap := (heap s)(nextp s := e), nextp := Suc (nextp s)\<rparr>)"

definition assign :: "addr \<Rightarrow> (Error \<Rightarrow> Error) \<Rightarrow> 'a memory_scheme \<Rightarrow> 'a memory_scheme" where
  "assign a f s = s\<lparr>heap := (heap s)(a := f (heap s a))\<rparr>"

text \<open>
  The state of a program that links \<^verbatim>\<open>error.go\<close>: the store and the eight package-level
  variables, each holding the pointer its initialiser returned.
\<close>

record state = memory +
  ErrorBadRequest :: addr
  ErrorUnauthorized :: addr
  ErrorForbidden :: addr
  ErrorNotFound :: addr
  ErrorConflict :: addr
  ErrorUnprocessableEntity :: addr
  ErrorInternalServerError :: addr
  ErrorPanic :: addr

section \<open>The methods of \<open>*Error\<close>\<close>

text \<open>
  \<open>Error()\<close>: the empty string on a nil receiver, the text of the wrapped error when
  \<open>e.Err != nil\<close>, the message otherwise. \<open>e.Err.Error()\<close> is a dynamic call: on another
  \<open>*Error\<close> it is this method again, so the call follows the chain of causes, which
  nothing keeps from being cyclic (the fields are exported). Not returning is \<open>None\<close>.
\<close>

partial_function (option) Error_method :: "(addr \<Rightarrow> Error) \<Rightarrow> addr option \<Rightarrow> string option" where
  "Error_method h e =
     (case e of
        None \<Rightarrow> Some []
      | Some a \<Rightarrow>
          (case Err (h a) of
             NilError \<Rightarrow> Some (Message (h a))
           | ErrorPtr p \<Rightarrow> Error_method h p
           | Foreign t v txt \<Rightarrow> Some txt))"

text \<open>
  \<open>c.Error()\<close> on a value \<open>c\<close> of the interface type: a method call on the nil interface
  panics.
\<close>

definition error_Error :: "(addr \<Rightarrow> Error) \<Rightarrow> error \<Rightarrow> panic + string option" where
  "error_Error h c =
     (case c of
        NilError \<Rightarrow> Inl NilDereference
      | ErrorPtr p \<Rightarrow> Inr (Error_method h p)
      | Foreign t v txt \<Rightarrow> Inr (Some txt))"

definition Unwrap :: "(addr \<Rightarrow> Error) \<Rightarrow> addr option \<Rightarrow> error" where
  "Unwrap h e = (case e of None \<Rightarrow> NilError | Some a \<Rightarrow> Err (h a))"

text \<open>
  Go's \<open>==\<close> on two values of the interface type \<open>error\<close>: both nil, or identical dynamic
  types and equal values, by the rule for interface values above. Pointers to \<open>Error\<close> are
  equal if they are the same pointer.
\<close>

fun iface_eq :: "error \<Rightarrow> error \<Rightarrow> panic + bool" where
  "iface_eq NilError y = Inr (y = NilError)"
| "iface_eq (ErrorPtr p) y = Inr (y = ErrorPtr p)"
| "iface_eq (Foreign t v txt) (Foreign t' v' txt') =
     (if t = t'
      then (if comparable (underlying t) then value_eq v v' else Inl UncomparableTypes)
      else Inr False)"
| "iface_eq (Foreign t v txt) y = Inr False"

text \<open>
  \<open>Is(target)\<close>. The type assertion \<open>target.(*Error)\<close> succeeds exactly when the dynamic
  type of \<open>target\<close> is \<open>*Error\<close>, also for a nil pointer of that type, whose field
  \<open>targetErr.Type\<close> cannot be read.
\<close>

definition Is :: "(addr \<Rightarrow> Error) \<Rightarrow> addr option \<Rightarrow> error \<Rightarrow> panic + bool" where
  "Is h e target =
     (case e of
        None \<Rightarrow> Inr (target = NilError)
      | Some a \<Rightarrow>
          (case target of
             ErrorPtr targetErr \<Rightarrow>
               (case targetErr of
                  None \<Rightarrow> Inl NilDereference
                | Some b \<Rightarrow> Inr (Type (h a) = Type (h b)))
           | _ \<Rightarrow>
               if Err (h a) \<noteq> NilError then iface_eq (Err (h a)) target else Inr False))"

section \<open>Library functions the stack capture calls\<close>

text \<open>
  \<open>runtime.Stack(buf, false)\<close> writes the textual dump of the calling goroutine's stack
  into \<open>buf\<close>, as much of it as fits, and returns the number of bytes written. The dump
  is an input of the model; \<open>runtime_Stack n dump\<close> is \<open>buf[:n]\<close> after the call, for a
  buffer of \<open>n\<close> bytes.
\<close>

definition runtime_Stack :: "nat \<Rightarrow> string \<Rightarrow> string" where
  "runtime_Stack n dump = take n dump"

text \<open>
  \<open>strings.Split\<close> with the line feed as separator: the pieces between the line feeds,
  one more than there are line feeds. There is always a piece, so the last case of the
  inner \<open>case\<close> never arises.
\<close>

fun Split :: "string \<Rightarrow> string list" where
  "Split [] = [[]]"
| "Split (c # cs) = (if c = CHR 0x0A then [] # Split cs else (case Split cs of l # ls \<Rightarrow> (c # l) # ls | [] \<Rightarrow> [[c]]))"

definition space_runes :: "string list" where
  "space_runes =
     [[CHR 0x09], [CHR 0x0A], [CHR 0x0B], [CHR 0x0C], [CHR 0x0D], [CHR 0x20],
      [CHR 0xC2, CHR 0x85], [CHR 0xC2, CHR 0xA0],
      [CHR 0xE1, CHR 0x9A, CHR 0x80],
      [CHR 0xE2, CHR 0x80, CHR 0x80], [CHR 0xE2, CHR 0x80, CHR 0x81],
      [CHR 0xE2, CHR 0x80, CHR 0x82], [CHR 0xE2, CHR 0x80, CHR 0x83],
      [CHR 0xE2, CHR 0x80, CHR 0x84], [CHR 0xE2, CHR 0x80, CHR 0x85],
      [CHR 0xE2, CHR 0x80, CHR 0x86], [CHR 0xE2, CHR 0x80, CHR 0x87],
      [CHR 0xE2, CHR 0x80, CHR 0x88], [CHR 0xE2, CHR 0x80, CHR 0x89],
      [CHR 0xE2, CHR 0x80, CHR 0x8A],
      [CHR 0xE2, CHR 0x80, CHR 0xA8], [CHR 0xE2, CHR 0x80, CHR 0xA9],
      [CHR 0xE2, CHR 0x80, CHR 0xAF],
      [CHR 0xE2, CHR 0x81, CHR 0x9F],
      [CHR 0xE3, CHR 0x80, CHR 0x80]]"

definition HasPrefix :: "string \<Rightarrow> string \<Rightarrow> bool" where
  "HasPrefix s p = (length p \<le> length s \<and> take (length p) s = p)"

definition HasSuffix :: "string \<Rightarrow> string \<Rightarrow> bool" where
  "HasSuffix s p = (length p \<le> length s \<and> drop (length s - length p) s = p)"

definition leading_space :: "string \<Rightarrow> nat" where
  "leading_space s = (case find (HasPrefix s) space_runes of None \<Rightarrow> 0 | Some r \<Rightarrow> length r)"

definition trailing_space :: "string \<Rightarrow> nat" where
  "trailing_space s = (case find (HasSuffix s) space_runes of None \<Rightarrow> 0 | Some r \<Rightarrow> length r)"

text \<open>
  \<open>strings.TrimSpace\<close> removes the white space runes (Unicode's White_Space property)
  at both ends. \<open>space_runes\<close> lists their UTF-8 encodings; a rune is decoded at the
  front of \<open>s\<close> exactly when its encoding is a prefix of \<open>s\<close>, and at the back exactly
  when it is a suffix. A byte that belongs to no valid encoding is not white space.
\<close>

function TrimLeft :: "string \<Rightarrow> string" where
  "TrimLeft s = (if leading_space s = 0 then s else TrimLeft (drop (leading_space s) s))"
  by pat_completeness auto
termination
proof (relation "measure length")
  show "wf (measure length)" by simp
next
  fix s :: string
  assume "leading_space s \<noteq> 0"
  moreover have "leading_space s \<le> length s"
    by (auto simp: leading_space_def HasPrefix_def find_Some_iff split: option.splits)
  ultimately show "(drop (leading_space s) s, s) \<in> measure length" by simp
qed

declare TrimLeft.simps [simp del]

function TrimRight :: "string \<Rightarrow> string" where
  "TrimRight s = (if trailing_space s = 0 then s else TrimRight (take (length s - trailing_space s) s))"
  by pat_completeness auto
termination
proof (relation "measure length")
  show "wf (measure length)" by simp
next
  fix s :: string
  assume "trailing_space s \<noteq> 0"
  moreover have "trailing_space s \<le> length s"
    by (auto simp: trailing_space_def HasSuffix_def find_Some_iff split: option.splits)
  ultimately show "(take (length s - trailing_space s) s, s) \<in> measure length" by simp
qed

declare TrimRight.simps [simp del]

definition TrimSpace :: "string \<Rightarrow> string" where
  "TrimSpace s = TrimRight (TrimLeft s)"

section \<open>Stack capture\<close>

text \<open>
  \<^verbatim>\<open>error.go\<close>: the dump of at most 4096 bytes, cut into lines, each line trimmed, the
  blank ones dropped. The argument is the dump \<open>runtime.Stack\<close> would write at this call.
\<close>

fun collect_lines :: "string list \<Rightarrow> string list \<Rightarrow> string list" where
  "collect_lines [] result = result"
| "collect_lines (line # lines) result =
     (let trimmed = TrimSpace line
      in if trimmed \<noteq> [] then collect_lines lines (result @ [trimmed])
         else collect_lines lines result)"

definition captureStackTrace :: "string \<Rightarrow> string slice" where
  "captureStackTrace dump =
     (let stackSize = 4096;
          stackFrames = runtime_Stack stackSize dump;
          lines = Split stackFrames
      in Some (collect_lines lines []))"

text \<open>
  The other source file of the constructors captures with \<open>runtime.Callers\<close>; its
  definitions carry the suffix \<open>_alt\<close> here, since both files declare the same names.
  The call stack is an input of the model: the frames of the goroutine at the call of
  \<open>runtime.Callers\<close>, innermost first, the frame of \<open>runtime.Callers\<close> itself at index 0.
  \<open>runtime_Callers skip m stack\<close> is \<open>pcs[:n]\<close> for a buffer of \<open>m\<close> entries, each program
  counter standing for its frame; \<open>Next\<close> is \<open>frames.Next()\<close> on what is left of them.
  Every call in the file passes \<open>skip = 1\<close>.
\<close>

record Frame =
  File :: string
  Line :: int
  Function :: string

definition runtime_Callers :: "nat \<Rightarrow> nat \<Rightarrow> Frame list \<Rightarrow> Frame list" where
  "runtime_Callers skip m stack = take m (drop skip stack)"

definition Next :: "Frame list \<Rightarrow> Frame \<times> bool \<times> Frame list" where
  "Next frames =
     (case frames of
        [] \<Rightarrow> (\<lparr>File = [], Line = 0, Function = []\<rparr>, False, [])
      | f # rest \<Rightarrow> (f, rest \<noteq> [], rest))"

text \<open>The verb \<open>%d\<close> of \<open>fmt.Sprintf\<close>: the decimal digits, after a minus sign if negative.\<close>

definition digit :: "nat \<Rightarrow> char" where
  "digit d = ''0123456789'' ! d"

fun digits :: "nat \<Rightarrow> string" where
  "digits n = (if n < 10 then [digit n] else digits (n div 10) @ [digit (n mod 10)])"

declare digits.simps [simp del]

definition Sprintf_d :: "int \<Rightarrow> string" where
  "Sprintf_d i = (if i < 0 then CHR ''-'' # digits (nat (- i)) else digits (nat i))"

definition isRelevantFrame :: "Frame \<Rightarrow> bool" where
  "isRelevantFrame frame =
     (if HasPrefix (Function frame) ''runtime.'' then False
      else if HasPrefix (Function frame) ''testing.'' then False
      else True)"

text \<open>\<open>fmt.Sprintf("%s:%d %s", frame.File, frame.Line, frame.Function)\<close>.\<close>

definition render :: "Frame \<Rightarrow> string" where
  "render frame = File frame @ '':'' @ Sprintf_d (Line frame) @ '' '' @ Function frame"

function frames_loop :: "Frame list \<Rightarrow> string list \<Rightarrow> string list" where
  "frames_loop frames result =
     (case Next frames of
        (frame, more', frames') \<Rightarrow>
          (let result' = (if isRelevantFrame frame then result @ [render frame] else result)
           in if \<not> more' then result' else frames_loop frames' result'))"
  by pat_completeness auto
termination
  by (relation "measure (\<lambda>(frames, result). length frames)")
     (auto simp: Next_def split: list.splits)

declare frames_loop.simps [simp del]

definition captureStackTrace_alt :: "nat \<Rightarrow> Frame list \<Rightarrow> string slice" where
  "captureStackTrace_alt skip stack =
     (let maxFrames = 32;
          pcs = runtime_Callers (skip + 2) maxFrames stack;
          n = length pcs
      in if n = 0 then Some []
         else Some (frames_loop pcs []))"

section \<open>The constructors of \<^verbatim>\<open>error.go\<close>\<close>

text \<open>
  Each constructor takes the dump that \<open>runtime.Stack\<close> would write at its call of
  \<open>captureStackTrace\<close>, and the store; it returns the pointer and the new store.
\<close>

definition New :: "string \<Rightarrow> 64 word \<Rightarrow> string \<Rightarrow> string \<Rightarrow> 'a memory_scheme \<Rightarrow> addr \<times> 'a memory_scheme" where
  "New dump code message errorType s =
     (case alloc \<lparr>Type = errorType, Code = code, Message = message, Violations = Some [],
                    Err = NilError, StackTraces = Some []\<rparr> s of
        (e, s1) \<Rightarrow>
          (e, if len (StackTraces (heap s1 e)) = 0
              then assign e (\<lambda>x. x\<lparr>StackTraces := go_append (StackTraces x) (captureStackTrace dump)\<rparr>) s1
              else s1))"

definition DefaultError :: "string \<Rightarrow> 'a memory_scheme \<Rightarrow> addr \<times> 'a memory_scheme" where
  "DefaultError dump s =
     alloc \<lparr>Type = ''INTERNAL_SERVER_ERROR'', Code = 500,
            Message = ''An internal server error occurred'', Violations = Some [],
            Err = NilError, StackTraces = captureStackTrace dump\<rparr> s"

text \<open>
  \<open>Wrap\<close> calls \<open>DefaultError\<close>, which captures with the dump \<open>dump0\<close>, and captures
  again itself, with \<open>dump\<close>, only if that first capture came back empty.
\<close>

definition Wrap :: "string \<Rightarrow> string \<Rightarrow> error \<Rightarrow> 'a memory_scheme \<Rightarrow> addr \<times> 'a memory_scheme" where
  "Wrap dump0 dump err s =
     (case DefaultError dump0 s of
        (e, s1) \<Rightarrow>
          (let s2 = assign e (\<lambda>x. x\<lparr>Err := err\<rparr>) s1
           in (e, if len (StackTraces (heap s2 e)) = 0
                  then assign e (\<lambda>x. x\<lparr>StackTraces := captureStackTrace dump\<rparr>) s2
                  else s2)))"

text \<open>
  \<open>e := ErrorUnprocessableEntity\<close> copies the pointer held by the package-level variable,
  not the object: the two assignments write to the object the variable points to.
\<close>

definition Violations_ctor :: "string \<Rightarrow> ValidationError slice \<Rightarrow> state \<Rightarrow> addr \<times> state" where
  "Violations_ctor dump violations s =
     (let e = ErrorUnprocessableEntity s;
          s1 = assign e (\<lambda>x. x\<lparr>Violations := violations\<rparr>) s
      in (e, if len (StackTraces (heap s1 e)) = 0
             then assign e (\<lambda>x. x\<lparr>StackTraces := captureStackTrace dump\<rparr>) s1
             else s1))"

text \<open>
  Package initialisation: the eight variables are initialised in the order of their
  declarations, each by a call of \<open>New\<close>; \<open>d0\<close>, ..., \<open>d7\<close> are the stack dumps at these
  calls. The store starts empty; an address never handed out reads as the zero value of
  \<open>Error\<close>.
\<close>

definition zero_Error :: Error where
  "zero_Error = \<lparr>Type = [], Code = 0, Message = [], Violations = None, Err = NilError, StackTraces = None\<rparr>"

definition empty_memory :: memory where
  "empty_memory = \<lparr>heap = (\<lambda>a. zero_Error), nextp = 0\<rparr>"

definition init :: "string \<Rightarrow> string \<Rightarrow> string \<Rightarrow> string \<Rightarrow> string \<Rightarrow> string \<Rightarrow> string \<Rightarrow> string \<Rightarrow> state" where
  "init d0 d1 d2 d3 d4 d5 d6 d7 =
     (case New d0 400 ''Bad request'' ''BAD_REQUEST'' empty_memory of (p0, s0) \<Rightarrow>
      case New d1 401 ''Unauthorized'' ''UNAUTHORIZED'' s0 of (p1, s1) \<Rightarrow>
      case New d2 403 ''Forbidden'' ''FORBIDDEN'' s1 of (p2, s2) \<Rightarrow>
      case New d3 404 ''Not found'' ''NOT_FOUND'' s2 of (p3, s3) \<Rightarrow>
      case New d4 409 ''Conflict'' ''CONFLICT'' s3 of (p4, s4) \<Rightarrow>
      case New d5 422 ''Unprocessable entity'' ''UNPROCESSABLE_ENTITY'' s4 of (p5, s5) \<Rightarrow>
      case New d6 500 ''Internal server error'' ''INTERNAL_SERVER_ERROR'' s5 of (p6, s6) \<Rightarrow>
      case New d7 500 ''Panic'' ''PANIC'' s6 of (p7, s7) \<Rightarrow>
        \<lparr>heap = heap s7, nextp = nextp s7,
         ErrorBadRequest = p0, ErrorUnauthorized = p1, ErrorForbidden = p2, ErrorNotFound = p3,
         ErrorConflict = p4, ErrorUnprocessableEntity = p5, ErrorInternalServerError = p6,
         ErrorPanic = p7\<rparr>)"

section \<open>The constructors of the other source file\<close>

text \<open>
  Each takes the call stack at its call of \<open>captureStackTrace(1)\<close> and builds a new
  object; none reads or writes an object that exists already.
\<close>

definition New_alt :: "Frame list \<Rightarrow> 64 word \<Rightarrow> string \<Rightarrow> string \<Rightarrow> 'a memory_scheme \<Rightarrow> addr \<times> 'a memory_scheme" where
  "New_alt stack code message errorType s =
     (case alloc \<lparr>Type = errorType, Code = code, Message = message, Violations = Some [],
                    Err = NilError, StackTraces = Some []\<rparr> s of
        (e, s1) \<Rightarrow>
          (e, if len (StackTraces (heap s1 e)) = 0
              then assign e (\<lambda>x. x\<lparr>StackTraces := go_append (StackTraces x) (captureStackTrace_alt 1 stack)\<rparr>) s1
              else s1))"

definition Wrap_alt :: "Frame list \<Rightarrow> error \<Rightarrow> 'a memory_scheme \<Rightarrow> addr \<times> 'a memory_scheme" where
  "Wrap_alt stack err s =
     alloc \<lparr>Type = ''INTERNAL_SERVER_ERROR'', Code = 500,
            Message = ''An internal server error occurred'', Violations = Some [],
            Err = err, StackTraces = captureStackTrace_alt 1 stack\<rparr> s"

definition Violations_alt :: "Frame list \<Rightarrow> ValidationError slice \<Rightarrow> 'a memory_scheme \<Rightarrow> addr \<times> 'a memory_scheme" where
  "Violations_alt stack violations s =
     alloc \<lparr>Type = ''UNPROCESSABLE_ENTITY'', Code = 422,
            Message = ''Unprocessable entity'', Violations = violations,
            Err = NilError, StackTraces = captureStackTrace_alt 1 stack\<rparr> s"

definition ErrorBadRequest_alt :: "Frame list \<Rightarrow> 'a memory_scheme \<Rightarrow> addr \<times> 'a memory_scheme" where
  "ErrorBadRequest_alt stack s =
     alloc \<lparr>Type = ''BAD_REQUEST'', Code = 400, Message = ''Bad request'', Violations = Some [],
            Err = NilError, StackTraces = captureStackTrace_alt 1 stack\<rparr> s"

definition ErrorUnauthorized_alt :: "Frame list \<Rightarrow> 'a memory_scheme \<Rightarrow> addr \<times> 'a memory_scheme" where
  "ErrorUnauthorized_alt stack s =
     alloc \<lparr>Type = ''UNAUTHORIZED'', Code = 401, Message = ''Unauthorized'', Violations = Some [],
            Err = NilError, StackTraces = captureStackTrace_alt 1 stack\<rparr> s"

definition ErrorForbidden_alt :: "Frame list \<Rightarrow> 'a memory_scheme \<Rightarrow> addr \<times> 'a memory_scheme" where
  "ErrorForbidden_alt stack s =
     alloc \<lparr>Type = ''FORBIDDEN'', Code = 403, Message = ''Forbidden'', Violations = Some [],
            Err = NilError, StackTraces = captureStackTrace_alt 1 stack\<rparr> s"

definition ErrorNotFound_alt :: "Frame list \<Rightarrow> 'a memory_scheme \<Rightarrow> addr \<times> 'a memory_scheme" where
  "ErrorNotFound_alt stack s =
     alloc \<lparr>Type = ''NOT_FOUND'', Code = 404, Message = ''Not found'', Violations = Some [],
            Err = NilError, StackTraces = captureStackTrace_alt 1 stack\<rparr> s"

definition ErrorConflict_alt :: "Frame list \<Rightarrow> 'a memory_scheme \<Rightarrow> addr \<times> 'a memory_scheme" where
  "ErrorConflict_alt stack s =
     alloc \<lparr>Type = ''CONFLICT'', Code = 409, Message = ''Conflict'', Violations = Some [],
            Err = NilError, StackTraces = captureStackTrace_alt 1 stack\<rparr> s"

definition ErrorUnprocessableEntity_alt :: "Frame list \<Rightarrow> 'a memory_scheme \<Rightarrow> addr \<times> 'a memory_scheme" where
  "ErrorUnprocessableEntity_alt stack s =
     alloc \<lparr>Type = ''UNPROCESSABLE_ENTITY'', Code = 422, Message = ''Unprocessable entity'', Violations = Some [],
            Err = NilError, StackTraces = captureStackTrace_alt 1 stack\<rparr> s"

definition ErrorInternalServerError_alt :: "Frame list \<Rightarrow> 'a memory_scheme \<Rightarrow> addr \<times> 'a memory_scheme" where
  "ErrorInternalServerError_alt stack s =
     alloc \<lparr>Type = ''INTERNAL_SERVER_ERROR'', Code = 500, Message = ''Internal server error'', Violations = Some [],
            Err = NilError, StackTraces = captureStackTrace_alt 1 stack\<rparr> s"

definition ErrorPanic_alt :: "Frame list \<Rightarrow> 'a memory_scheme \<Rightarrow> addr \<times> 'a memory_scheme" where
  "ErrorPanic_alt stack s =
     alloc \<lparr>Type = ''PANIC'', Code = 500, Message = ''Panic'', Violations = Some [],
            Err = NilError, StackTraces = captureStackTrace_alt 1 stack\<rparr> s"

definition DefaultError_alt :: "Frame list \<Rightarrow> 'a memory_scheme \<Rightarrow> addr \<times> 'a memory_scheme" where
  "DefaultError_alt stack s =
     alloc \<lparr>Type = ''INTERNAL_SERVER_ERROR'', Code = 500,
            Message = ''An internal server error occurred'', Violations = Some [],
            Err = NilError, StackTraces = captureStackTrace_alt 1 stack\<rparr> s"

section \<open>The states a program can reach\<close>

text \<open>
  A program that links \<^verbatim>\<open>error.go\<close> starts in the state package initialisation leaves
  and changes it through the four exported constructors only. An error handed to \<open>Wrap\<close>
  exists: if it is a non-nil \<open>*Error\<close>, it points to an allocated object.
\<close>

definition valid_error :: "'a memory_scheme \<Rightarrow> error \<Rightarrow> bool" where
  "valid_error s c = (case c of ErrorPtr (Some p) \<Rightarrow> p < nextp s | _ \<Rightarrow> True)"

inductive reachable :: "state \<Rightarrow> bool" where
  reach_init: "reachable (init d0 d1 d2 d3 d4 d5 d6 d7)"
| reach_New: "reachable s \<Longrightarrow> reachable (snd (New dump code message errorType s))"
| reach_DefaultError: "reachable s \<Longrightarrow> reachable (snd (DefaultError dump s))"
| reach_Wrap: "reachable s \<Longrightarrow> valid_error s err \<Longrightarrow> reachable (snd (Wrap dump0 dump err s))"
| reach_Violations: "reachable s \<Longrightarrow> reachable (snd (Violations_ctor dump violations s))"

text \<open>What a catalog entry keeps in every reachable state: its place, kind, code, message and absent cause.\<close>

definition entry :: "state \<Rightarrow> addr \<Rightarrow> string \<Rightarrow> 64 word \<Rightarrow> string \<Rightarrow> bool" where
  "entry s p k c m =
     (p < nextp s \<and> Type (heap s p) = k \<and> Code (heap s p) = c \<and> Message (heap s p) = m \<and>
      Err (heap s p) = NilError)"

definition catalog_ok :: "state \<Rightarrow> bool" where
  "catalog_ok s =
     (entry s (ErrorBadRequest s) ''BAD_REQUEST'' 400 ''Bad request'' \<and>
      entry s (ErrorUnauthorized s) ''UNAUTHORIZED'' 401 ''Unauthorized'' \<and>
      entry s (ErrorForbidden s) ''FORBIDDEN'' 403 ''Forbidden'' \<and>
      entry s (ErrorNotFound s) ''NOT_FOUND'' 404 ''Not found'' \<and>
      entry s (ErrorConflict s) ''CONFLICT'' 409 ''Conflict'' \<and>
      entry s (ErrorUnprocessableEntity s) ''UNPROCESSABLE_ENTITY'' 422 ''Unprocessable entity'' \<and>
      entry s (ErrorInternalServerError s) ''INTERNAL_SERVER_ERROR'' 500 ''Internal server error'' \<and>
      entry s (ErrorPanic s) ''PANIC'' 500 ''Panic'')"

text \<open>
  What keeps \<open>Error()\<close> from running forever in a reachable state: a cause that is a
  \<open>*Error\<close> was allocated before the object that wraps it.
\<close>

definition causes_older :: "'a memory_scheme \<Rightarrow> bool" where
  "causes_older s = (\<forall>a < nextp s. \<forall>p. Err (heap s a) = ErrorPtr (Some p) \<longrightarrow> p < a)"

section \<open>Sample inputs\<close>

text \<open>
  Stack dumps as \<open>runtime.Stack\<close> writes them, used where a statement is evaluated at a
  concrete input: a header line, then two lines for each frame, the frame of the caller of
  \<open>runtime.Stack\<close> first. \<open>sample_dump_init\<close> is taken in \<open>New\<close> during package
  initialisation, the other two in \<open>New\<close> and in \<open>Violations\<close> called from \<open>main\<close>.
\<close>

definition sample_dump_init :: string where
  "sample_dump_init =
     ''goroutine 1 [running]:'' @ [CHR 0x0A] @
     ''github.com/andryhardiyanto/go-errors.captureStackTrace()'' @ [CHR 0x0A, CHR 0x09] @
     ''/go/src/go-errors/error.go:12 +0x45'' @ [CHR 0x0A] @
     ''github.com/andryhardiyanto/go-errors.New(...)'' @ [CHR 0x0A, CHR 0x09] @
     ''/go/src/go-errors/error.go:38 +0x9c'' @ [CHR 0x0A] @
     ''github.com/andryhardiyanto/go-errors.init()'' @ [CHR 0x0A, CHR 0x09] @
     ''/go/src/go-errors/errors.go:22 +0x1a5'' @ [CHR 0x0A]"

definition sample_dump_New :: string where
  "sample_dump_New =
     ''goroutine 1 [running]:'' @ [CHR 0x0A] @
     ''github.com/andryhardiyanto/go-errors.captureStackTrace()'' @ [CHR 0x0A, CHR 0x09] @
     ''/go/src/go-errors/error.go:12 +0x45'' @ [CHR 0x0A] @
     ''github.com/andryhardiyanto/go-errors.New(...)'' @ [CHR 0x0A, CHR 0x09] @
     ''/go/src/go-errors/error.go:38 +0x9c'' @ [CHR 0x0A] @
     ''main.main()'' @ [CHR 0x0A, CHR 0x09] @
     ''/app/main.go:9 +0x3a'' @ [CHR 0x0A]"

definition sample_dump_Violations :: string where
  "sample_dump_Violations =
     ''goroutine 1 [running]:'' @ [CHR 0x0A] @
     ''github.com/andryhardiyanto/go-errors.captureStackTrace()'' @ [CHR 0x0A, CHR 0x09] @
     ''/go/src/go-errors/error.go:12 +0x45'' @ [CHR 0x0A] @
     ''github.com/andryhardiyanto/go-errors.Violations(...)'' @ [CHR 0x0A, CHR 0x09] @
     ''/go/src/go-errors/error.go:62 +0x7d'' @ [CHR 0x0A] @
     ''main.main()'' @ [CHR 0x0A, CHR 0x09] @
     ''/app/main.go:14 +0x5b'' @ [CHR 0x0A]"

text \<open>
  Call stacks as \<open>runtime.Callers\<close> sees them inside a constructor of the other source
  file, given the constructor's name and the line of its call of \<open>captureStackTrace\<close>: the
  constructor called from \<open>main\<close>, and the constructor started as a goroutine of its own
  by a \<open>go\<close> statement, where the frame below it is \<open>runtime.goexit\<close>.
\<close>

definition sample_stack_main :: "string \<Rightarrow> int \<Rightarrow> Frame list" where
  "sample_stack_main constructor line =
     [\<lparr>File = ''/usr/local/go/src/runtime/extern.go'', Line = 331, Function = ''runtime.Callers''\<rparr>,
      \<lparr>File = ''/go/src/go-errors/error.go'', Line = 16,
        Function = ''github.com/andryhardiyanto/go-errors.captureStackTrace''\<rparr>,
      \<lparr>File = ''/go/src/go-errors/error.go'', Line = line,
        Function = ''github.com/andryhardiyanto/go-errors.'' @ constructor\<rparr>,
      \<lparr>File = ''/app/main.go'', Line = 14, Function = ''main.main''\<rparr>,
      \<lparr>File = ''/usr/local/go/src/runtime/proc.go'', Line = 283, Function = ''runtime.main''\<rparr>,
      \<lparr>File = ''/usr/local/go/src/runtime/asm_amd64.s'', Line = 1700, Function = ''runtime.goexit''\<rparr>]"

definition sample_stack_go :: "string \<Rightarrow> int \<Rightarrow> Frame list" where
  "sample_stack_go constructor line =
     [\<lparr>File = ''/usr/local/go/src/runtime/extern.go'', Line = 331, Function = ''runtime.Callers''\<rparr>,
      \<lparr>File = ''/go/src/go-errors/error.go'', Line = 16,
        Function = ''github.com/andryhardiyanto/go-errors.captureStackTrace''\<rparr>,
      \<lparr>File = ''/go/src/go-errors/error.go'', Line = line,
        Function = ''github.com/andryhardiyanto/go-errors.'' @ constructor\<rparr>,
      \<lparr>File = ''/usr/local/go/src/runtime/asm_amd64.s'', Line = 1700, Function = ''runtime.goexit''\<rparr>]"

text \<open>
  Errors of other types. The error \<open>errors.New("db down")\<close> of the standard library
  returns, a pointer, and another one with the same text; an error of a slice type, as the
  validation errors of a validator library are; an error whose type is a floating-point
  type, holding a NaN; and an error of a comparable struct type with a field of interface
  type that holds a slice.
\<close>

definition sample_db_down :: error where
  "sample_db_down = Foreign (DynType ''*errors.errorString'' TPointer) (VPointer (Some 1)) ''db down''"





section \<open>What each constructor writes\<close>

lemma captureStackTrace_nonnil: "captureStackTrace dump = Some (elems (captureStackTrace dump))"
  by (simp add: captureStackTrace_def elems_def Let_def)

lemma captureStackTrace_alt_nonnil:
  "captureStackTrace_alt skip stack = Some (elems (captureStackTrace_alt skip stack))"
  by (simp add: captureStackTrace_alt_def elems_def Let_def)

lemma New_eq:
  "New dump code message errorType s =
     (nextp s,
      s\<lparr>heap := (heap s)(nextp s := \<lparr>Type = errorType, Code = code, Message = message,
             Violations = Some [], Err = NilError, StackTraces = captureStackTrace dump\<rparr>),
        nextp := Suc (nextp s)\<rparr>)"
proof -
  obtain xs where "captureStackTrace dump = Some xs"
    using captureStackTrace_nonnil by blast
  then show ?thesis
    by (simp add: New_def alloc_def assign_def len_def go_append_def elems_def)
qed

lemma New_alt_eq:
  "New_alt stack code message errorType s =
     (nextp s,
      s\<lparr>heap := (heap s)(nextp s := \<lparr>Type = errorType, Code = code, Message = message,
             Violations = Some [], Err = NilError, StackTraces = captureStackTrace_alt 1 stack\<rparr>),
        nextp := Suc (nextp s)\<rparr>)"
proof -
  obtain xs where "captureStackTrace_alt 1 stack = Some xs"
    using captureStackTrace_alt_nonnil by blast
  then show ?thesis
    by (simp add: New_alt_def alloc_def assign_def len_def go_append_def elems_def)
qed

lemma Wrap_eq:
  "Wrap dump0 dump err s =
     (nextp s,
      s\<lparr>heap := (heap s)(nextp s := \<lparr>Type = ''INTERNAL_SERVER_ERROR'', Code = 500,
             Message = ''An internal server error occurred'',
             Violations = Some [], Err = err,
             StackTraces = (if len (captureStackTrace dump0) = 0 then captureStackTrace dump
                            else captureStackTrace dump0)\<rparr>),
        nextp := Suc (nextp s)\<rparr>)"
  by (simp add: Wrap_def DefaultError_def alloc_def assign_def Let_def)

lemma DefaultError_eq:
  "DefaultError dump s =
     (nextp s,
      s\<lparr>heap := (heap s)(nextp s := \<lparr>Type = ''INTERNAL_SERVER_ERROR'', Code = 500,
             Message = ''An internal server error occurred'',
             Violations = Some [], Err = NilError, StackTraces = captureStackTrace dump\<rparr>),
        nextp := Suc (nextp s)\<rparr>)"
  by (simp add: DefaultError_def alloc_def)

lemma Violations_ctor_eq:
  "Violations_ctor dump violations s =
     (ErrorUnprocessableEntity s,
      s\<lparr>heap := (heap s)(ErrorUnprocessableEntity s :=
          (heap s (ErrorUnprocessableEntity s))
            \<lparr>Violations := violations,
             StackTraces := (if len (StackTraces (heap s (ErrorUnprocessableEntity s))) = 0
                             then captureStackTrace dump
                             else StackTraces (heap s (ErrorUnprocessableEntity s)))\<rparr>)\<rparr>)"
  by (simp add: Violations_ctor_def assign_def Let_def)

lemma factories_alt:
  "(case ErrorBadRequest_alt stack s of (e, s') \<Rightarrow>
      Type (heap s' e) = ''BAD_REQUEST'' \<and> Code (heap s' e) = 400 \<and>
      Message (heap s' e) = ''Bad request'' \<and> Violations (heap s' e) = Some []) \<and>
   (case ErrorUnauthorized_alt stack s of (e, s') \<Rightarrow>
      Type (heap s' e) = ''UNAUTHORIZED'' \<and> Code (heap s' e) = 401 \<and>
      Message (heap s' e) = ''Unauthorized'' \<and> Violations (heap s' e) = Some []) \<and>
   (case ErrorForbidden_alt stack s of (e, s') \<Rightarrow>
      Type (heap s' e) = ''FORBIDDEN'' \<and> Code (heap s' e) = 403 \<and>
      Message (heap s' e) = ''Forbidden'' \<and> Violations (heap s' e) = Some []) \<and>
   (case ErrorNotFound_alt stack s of (e, s') \<Rightarrow>
      Type (heap s' e) = ''NOT_FOUND'' \<and> Code (heap s' e) = 404 \<and>
      Message (heap s' e) = ''Not found'' \<and> Violations (heap s' e) = Some []) \<and>
   (case ErrorConflict_alt stack s of (e, s') \<Rightarrow>
      Type (heap s' e) = ''CONFLICT'' \<and> Code (heap s' e) = 409 \<and>
      Message (heap s' e) = ''Conflict'' \<and> Violations (heap s' e) = Some []) \<and>
   (case ErrorUnprocessableEntity_alt stack s of (e, s') \<Rightarrow>
      Type (heap s' e) = ''UNPROCESSABLE_ENTITY'' \<and> Code (heap s' e) = 422 \<and>
      Message (heap s' e) = ''Unprocessable entity'' \<and> Violations (heap s' e) = Some []) \<and>
   (case ErrorInternalServerError_alt stack s of (e, s') \<Rightarrow>
      Type (heap s' e) = ''INTERNAL_SERVER_ERROR'' \<and> Code (heap s' e) = 500 \<and>
      Message (heap s' e) = ''Internal server error'' \<and> Violations (heap s' e) = Some []) \<and>
   (case ErrorPanic_alt stack s of (e, s') \<Rightarrow>
      Type (heap s' e) = ''PANIC'' \<and> Code (heap s' e) = 500 \<and>
      Message (heap s' e) = ''Panic'' \<and> Violations (heap s' e) = Some [])"
  by (simp add: ErrorBadRequest_alt_def ErrorUnauthorized_alt_def ErrorForbidden_alt_def
        ErrorNotFound_alt_def ErrorConflict_alt_def ErrorUnprocessableEntity_alt_def
        ErrorInternalServerError_alt_def ErrorPanic_alt_def alloc_def)

section \<open>The catalog in every reachable state\<close>

lemma catalog_ok_init: "catalog_ok (init d0 d1 d2 d3 d4 d5 d6 d7)"
  by (simp add: init_def empty_memory_def New_eq catalog_ok_def entry_def)

lemma reachable_catalog_ok: "reachable s \<Longrightarrow> catalog_ok s"
proof (induction rule: reachable.induct)
  case (reach_init d0 d1 d2 d3 d4 d5 d6 d7)
  show ?case by (rule catalog_ok_init)
next
  case (reach_New s dump code message errorType)
  then show ?case by (auto simp: catalog_ok_def entry_def New_eq)
next
  case (reach_DefaultError s dump)
  then show ?case by (auto simp: catalog_ok_def entry_def DefaultError_eq)
next
  case (reach_Wrap s err dump0 dump)
  then show ?case by (auto simp: catalog_ok_def entry_def Wrap_eq)
next
  case (reach_Violations s dump violations)
  then show ?case by (auto simp: catalog_ok_def entry_def Violations_ctor_eq)
qed

text \<open>
  C9. In every reachable state each of the eight catalog entries has its kind, code and
  message; \<open>ErrorNotFound\<close> is \<open>NOT_FOUND\<close> with code 404. \<open>DefaultError\<close> returns, in any
  state, an object of code 500 and kind \<open>INTERNAL_SERVER_ERROR\<close> with an empty, non-nil
  sequence of violations and no cause; its kind, code and message are those \<open>Wrap\<close> gives.
  The same holds in the other source file, where each catalog entry is a function that
  builds the object anew.
\<close>

theorem catalog_fixed_and_DefaultError:
  "reachable s \<Longrightarrow>
   (Type (heap s (ErrorBadRequest s)) = ''BAD_REQUEST'' \<and>
    Code (heap s (ErrorBadRequest s)) = 400 \<and>
    Message (heap s (ErrorBadRequest s)) = ''Bad request'') \<and>
   (Type (heap s (ErrorUnauthorized s)) = ''UNAUTHORIZED'' \<and>
    Code (heap s (ErrorUnauthorized s)) = 401 \<and>
    Message (heap s (ErrorUnauthorized s)) = ''Unauthorized'') \<and>
   (Type (heap s (ErrorForbidden s)) = ''FORBIDDEN'' \<and>
    Code (heap s (ErrorForbidden s)) = 403 \<and>
    Message (heap s (ErrorForbidden s)) = ''Forbidden'') \<and>
   (Type (heap s (ErrorNotFound s)) = ''NOT_FOUND'' \<and>
    Code (heap s (ErrorNotFound s)) = 404 \<and>
    Message (heap s (ErrorNotFound s)) = ''Not found'') \<and>
   (Type (heap s (ErrorConflict s)) = ''CONFLICT'' \<and>
    Code (heap s (ErrorConflict s)) = 409 \<and>
    Message (heap s (ErrorConflict s)) = ''Conflict'') \<and>
   (Type (heap s (ErrorUnprocessableEntity s)) = ''UNPROCESSABLE_ENTITY'' \<and>
    Code (heap s (ErrorUnprocessableEntity s)) = 422 \<and>
    Message (heap s (ErrorUnprocessableEntity s)) = ''Unprocessable entity'') \<and>
   (Type (heap s (ErrorInternalServerError s)) = ''INTERNAL_SERVER_ERROR'' \<and>
    Code (heap s (ErrorInternalServerError s)) = 500 \<and>
    Message (heap s (ErrorInternalServerError s)) = ''Internal server error'') \<and>
   (Type (heap s (ErrorPanic s)) = ''PANIC'' \<and>
    Code (heap s (ErrorPanic s)) = 500 \<and>
    Message (heap s (ErrorPanic s)) = ''Panic'') \<and>
   (case DefaultError dump s of (e, s') \<Rightarrow>
      Code (heap s' e) = 500 \<and> Type (heap s' e) = ''INTERNAL_SERVER_ERROR'' \<and>
      Violations (heap s' e) = Some [] \<and> Err (heap s' e) = NilError \<and>
      (case Wrap dump0 dump1 c s of (w, s'') \<Rightarrow>
         Type (heap s' e) = Type (heap s'' w) \<and> Code (heap s' e) = Code (heap s'' w) \<and>
         Message (heap s' e) = Message (heap s'' w))) \<and>
   (case DefaultError_alt stack mem of (e, mem') \<Rightarrow>
      Code (heap mem' e) = 500 \<and> Type (heap mem' e) = ''INTERNAL_SERVER_ERROR'' \<and>
      Violations (heap mem' e) = Some [] \<and> Err (heap mem' e) = NilError \<and>
      (case Wrap_alt stack1 c mem of (w, mem'') \<Rightarrow>
         Type (heap mem' e) = Type (heap mem'' w) \<and> Code (heap mem' e) = Code (heap mem'' w) \<and>
         Message (heap mem' e) = Message (heap mem'' w))) \<and>
   ((case ErrorBadRequest_alt stack mem of (e, s') \<Rightarrow>
      Type (heap s' e) = ''BAD_REQUEST'' \<and> Code (heap s' e) = 400 \<and>
      Message (heap s' e) = ''Bad request'' \<and> Violations (heap s' e) = Some []) \<and>
   (case ErrorUnauthorized_alt stack mem of (e, s') \<Rightarrow>
      Type (heap s' e) = ''UNAUTHORIZED'' \<and> Code (heap s' e) = 401 \<and>
      Message (heap s' e) = ''Unauthorized'' \<and> Violations (heap s' e) = Some []) \<and>
   (case ErrorForbidden_alt stack mem of (e, s') \<Rightarrow>
      Type (heap s' e) = ''FORBIDDEN'' \<and> Code (heap s' e) = 403 \<and>
      Message (heap s' e) = ''Forbidden'' \<and> Violations (heap s' e) = Some []) \<and>
   (case ErrorNotFound_alt stack mem of (e, s') \<Rightarrow>
      Type (heap s' e) = ''NOT_FOUND'' \<and> Code (heap s' e) = 404 \<and>
      Message (heap s' e) = ''Not found'' \<and> Violations (heap s' e) = Some []) \<and>
   (case ErrorConflict_alt stack mem of (e, s') \<Rightarrow>
      Type (heap s' e) = ''CONFLICT'' \<and> Code (heap s' e) = 409 \<and>
      Message (heap s' e) = ''Conflict'' \<and> Violations (heap s' e) = Some []) \<and>
   (case ErrorUnprocessableEntity_alt stack mem of (e, s') \<Rightarrow>
      Type (heap s' e) = ''UNPROCESSABLE_ENTITY'' \<and> Code (heap s' e) = 422 \<and>
      Message (heap s' e) = ''Unprocessable entity'' \<and> Violations (heap s' e) = Some []) \<and>
   (case ErrorInternalServerError_alt stack mem of (e, s') \<Rightarrow>
      Type (heap s' e) = ''INTERNAL_SERVER_ERROR'' \<and> Code (heap s' e) = 500 \<and>
      Message (heap s' e) = ''Internal server error'' \<and> Violations (heap s' e) = Some []) \<and>
   (case ErrorPanic_alt stack mem of (e, s') \<Rightarrow>
      Type (heap s' e) = ''PANIC'' \<and> Code (heap s' e) = 500 \<and>
      Message (heap s' e) = ''Panic'' \<and> Violations (heap s' e) = Some []))"
proof -
  assume "reachable s"
  then have ok: "catalog_ok s" by (rule reachable_catalog_ok)
  have d: "case DefaultError dump s of (e, s') \<Rightarrow>
      Code (heap s' e) = 500 \<and> Type (heap s' e) = ''INTERNAL_SERVER_ERROR'' \<and>
      Violations (heap s' e) = Some [] \<and> Err (heap s' e) = NilError \<and>
      (case Wrap dump0 dump1 c s of (w, s'') \<Rightarrow>
         Type (heap s' e) = Type (heap s'' w) \<and> Code (heap s' e) = Code (heap s'' w) \<and>
         Message (heap s' e) = Message (heap s'' w))"
    by (simp add: DefaultError_eq Wrap_eq)
  have d_alt: "case DefaultError_alt stack mem of (e, mem') \<Rightarrow>
      Code (heap mem' e) = 500 \<and> Type (heap mem' e) = ''INTERNAL_SERVER_ERROR'' \<and>
      Violations (heap mem' e) = Some [] \<and> Err (heap mem' e) = NilError \<and>
      (case Wrap_alt stack1 c mem of (w, mem'') \<Rightarrow>
         Type (heap mem' e) = Type (heap mem'' w) \<and> Code (heap mem' e) = Code (heap mem'' w) \<and>
         Message (heap mem' e) = Message (heap mem'' w))"
    by (simp add: DefaultError_alt_def Wrap_alt_def alloc_def)
  from ok have cat: "(Type (heap s (ErrorBadRequest s)) = ''BAD_REQUEST'' \<and>
    Code (heap s (ErrorBadRequest s)) = 400 \<and>
    Message (heap s (ErrorBadRequest s)) = ''Bad request'') \<and>
   (Type (heap s (ErrorUnauthorized s)) = ''UNAUTHORIZED'' \<and>
    Code (heap s (ErrorUnauthorized s)) = 401 \<and>
    Message (heap s (ErrorUnauthorized s)) = ''Unauthorized'') \<and>
   (Type (heap s (ErrorForbidden s)) = ''FORBIDDEN'' \<and>
    Code (heap s (ErrorForbidden s)) = 403 \<and>
    Message (heap s (ErrorForbidden s)) = ''Forbidden'') \<and>
   (Type (heap s (ErrorNotFound s)) = ''NOT_FOUND'' \<and>
    Code (heap s (ErrorNotFound s)) = 404 \<and>
    Message (heap s (ErrorNotFound s)) = ''Not found'') \<and>
   (Type (heap s (ErrorConflict s)) = ''CONFLICT'' \<and>
    Code (heap s (ErrorConflict s)) = 409 \<and>
    Message (heap s (ErrorConflict s)) = ''Conflict'') \<and>
   (Type (heap s (ErrorUnprocessableEntity s)) = ''UNPROCESSABLE_ENTITY'' \<and>
    Code (heap s (ErrorUnprocessableEntity s)) = 422 \<and>
    Message (heap s (ErrorUnprocessableEntity s)) = ''Unprocessable entity'') \<and>
   (Type (heap s (ErrorInternalServerError s)) = ''INTERNAL_SERVER_ERROR'' \<and>
    Code (heap s (ErrorInternalServerError s)) = 500 \<and>
    Message (heap s (ErrorInternalServerError s)) = ''Internal server error'') \<and>
   (Type (heap s (ErrorPanic s)) = ''PANIC'' \<and>
    Code (heap s (ErrorPanic s)) = 500 \<and>
    Message (heap s (ErrorPanic s)) = ''Panic'')"
    unfolding catalog_ok_def entry_def by blast
  from cat d d_alt factories_alt [of stack mem] show ?thesis
    by (simp only: simp_thms)
qed

theorem catalog_fixed_and_DefaultError_witness:
  "reachable (init sample_dump_init sample_dump_init sample_dump_init sample_dump_init
                   sample_dump_init sample_dump_init sample_dump_init sample_dump_init) \<and>
   Type (heap (init sample_dump_init sample_dump_init sample_dump_init sample_dump_init
                    sample_dump_init sample_dump_init sample_dump_init sample_dump_init)
              (ErrorNotFound (init sample_dump_init sample_dump_init sample_dump_init sample_dump_init
                    sample_dump_init sample_dump_init sample_dump_init sample_dump_init))) = ''NOT_FOUND'' \<and>
   Code (heap (init sample_dump_init sample_dump_init sample_dump_init sample_dump_init
                    sample_dump_init sample_dump_init sample_dump_init sample_dump_init)
              (ErrorNotFound (init sample_dump_init sample_dump_init sample_dump_init sample_dump_init
                    sample_dump_init sample_dump_init sample_dump_init sample_dump_init))) = 404"
proof -
  let ?i = "init sample_dump_init sample_dump_init sample_dump_init sample_dump_init
                 sample_dump_init sample_dump_init sample_dump_init sample_dump_init"
  have r: "reachable ?i" by (rule reach_init)
  note c9 = catalog_fixed_and_DefaultError
    [OF r, THEN conjunct2, THEN conjunct2, THEN conjunct2, THEN conjunct1]
  from c9 have "Type (heap ?i (ErrorNotFound ?i)) = ''NOT_FOUND''" and "Code (heap ?i (ErrorNotFound ?i)) = 404"
    by blast+
  with r show ?thesis by (intro conjI)
qed

text \<open>
  C1 (the code does otherwise). \<open>Violations\<close> of \<^verbatim>\<open>error.go\<close> returns the very pointer the
  variable \<open>ErrorUnprocessableEntity\<close> holds and has written its argument into that object:
  after initialisation the entry has an empty sequence of violations, and after
  \<open>Violations\<close> with one violation it has that one. \<open>Violations\<close> of the other source file
  returns a new object and leaves every other one as it was.
\<close>

theorem Violations_ctor_writes_catalog_entry:
  "(case Violations_ctor d issues s of
      (e, s') \<Rightarrow>
        e = ErrorUnprocessableEntity s' \<and>
        ErrorUnprocessableEntity s' = ErrorUnprocessableEntity s \<and>
        Violations (heap s' (ErrorUnprocessableEntity s')) = issues)
   \<and>
   Violations (heap (init d0 d1 d2 d3 d4 d5 d6 d7) (ErrorUnprocessableEntity (init d0 d1 d2 d3 d4 d5 d6 d7)))
     = Some []
   \<and>
   (case Violations_ctor d (Some [\<lparr>VType = ViolationErrorTypeRequired, Field = ''email'', VMessage = ''Email is required''\<rparr>])
           (init d0 d1 d2 d3 d4 d5 d6 d7) of
      (e, s') \<Rightarrow>
        e = ErrorUnprocessableEntity s' \<and>
        Violations (heap s' (ErrorUnprocessableEntity s')) =
          Some [\<lparr>VType = ViolationErrorTypeRequired, Field = ''email'', VMessage = ''Email is required''\<rparr>])
   \<and>
   (case Violations_alt stack issues mem of
      (e, mem') \<Rightarrow> e = nextp mem \<and> heap mem' = (heap mem)(e := heap mem' e))"
  by (simp add: Violations_ctor_eq init_def New_eq empty_memory_def Violations_alt_def alloc_def)

section \<open>Matching\<close>

text \<open>
  C4. Two errors built by \<open>New\<close>, one after the other: the first matches the second
  exactly when their kinds are equal, whatever the codes, the messages and the captured
  stacks are. This holds for the \<open>New\<close> of either source file.
\<close>

theorem New_Is_New_iff_kind:
  "(case New d1 c1 m1 k1 s of (e1, s1) \<Rightarrow>
      case New d2 c2 m2 k2 s1 of (e2, s2) \<Rightarrow>
        Is (heap s2) (Some e1) (ErrorPtr (Some e2))) = Inr (k1 = k2)
   \<and>
   (case New_alt st1 c1 m1 k1 s of (e1, s1) \<Rightarrow>
      case New_alt st2 c2 m2 k2 s1 of (e2, s2) \<Rightarrow>
        Is (heap s2) (Some e1) (ErrorPtr (Some e2))) = Inr (k1 = k2)"
  by (simp add: New_eq New_alt_eq Is_def)

text \<open>
  C10. A structured target is matched on kinds alone, whatever the receiver wraps. So an
  existing \<open>*Error\<close> \<open>c\<close>, wrapped, is matched by its wrapper exactly when the kind of \<open>c\<close> is
  \<open>INTERNAL_SERVER_ERROR\<close>, the kind \<open>Wrap\<close> gives; that \<open>c\<close> is the cause of the wrapper
  plays no part. Wrapping leaves the kind of \<open>c\<close> as it was.
\<close>

theorem Wrap_Is_structured_cause:
  "b < nextp s \<Longrightarrow>
   (case Wrap dump0 dump (ErrorPtr (Some b)) s of (e, s') \<Rightarrow>
      Type (heap s' b) = Type (heap s b) \<and>
      Is (heap s') (Some e) (ErrorPtr (Some b)) = Inr (Type (heap s b) = ''INTERNAL_SERVER_ERROR''))
   \<and>
   (case Wrap_alt stack (ErrorPtr (Some b)) s of (e, s') \<Rightarrow>
      Type (heap s' b) = Type (heap s b) \<and>
      Is (heap s') (Some e) (ErrorPtr (Some b)) = Inr (Type (heap s b) = ''INTERNAL_SERVER_ERROR''))
   \<and>
   Is h (Some a) (ErrorPtr (Some t)) = Inr (Type (h a) = Type (h t))"
  by (auto simp: Wrap_eq Wrap_alt_def alloc_def Is_def)

theorem Wrap_Is_structured_cause_witness:
  "(0::nat) < nextp (snd (New sample_dump_New 404 ''Not found'' ''NOT_FOUND'' empty_memory)) \<and>
   (case Wrap sample_dump_New sample_dump_New (ErrorPtr (Some 0))
           (snd (New sample_dump_New 404 ''Not found'' ''NOT_FOUND'' empty_memory)) of
      (e, s') \<Rightarrow> Is (heap s') (Some e) (ErrorPtr (Some 0)) = Inr False) \<and>
   (0::nat) < nextp (snd (DefaultError sample_dump_New empty_memory)) \<and>
   (case Wrap sample_dump_New sample_dump_New (ErrorPtr (Some 0))
           (snd (DefaultError sample_dump_New empty_memory)) of
      (e, s') \<Rightarrow> Is (heap s') (Some e) (ErrorPtr (Some 0)) = Inr True)"
  using Wrap_Is_structured_cause
    [where b = 0 and s = "snd (New sample_dump_New 404 ''Not found'' ''NOT_FOUND'' empty_memory)"
       and ?dump0.0 = sample_dump_New and dump = sample_dump_New]
    Wrap_Is_structured_cause
    [where b = 0 and s = "snd (DefaultError sample_dump_New empty_memory)"
       and ?dump0.0 = sample_dump_New and dump = sample_dump_New]
  by (simp add: New_eq DefaultError_eq Wrap_eq empty_memory_def)




section \<open>Description and unwrapping\<close>

lemma Error_method_nil: "Error_method h None = Some []"
  by (subst Error_method.simps) simp

lemma Error_method_Some:
  "Error_method h (Some a) =
     (case Err (h a) of
        NilError \<Rightarrow> Some (Message (h a))
      | ErrorPtr p \<Rightarrow> Error_method h p
      | Foreign t v txt \<Rightarrow> Some txt)"
  by (subst Error_method.simps) simp

lemma causes_older_init: "causes_older (init d0 d1 d2 d3 d4 d5 d6 d7)"
  by (simp add: causes_older_def init_def New_eq empty_memory_def)

lemma reachable_causes_older: "reachable s \<Longrightarrow> causes_older s"
proof (induction rule: reachable.induct)
  case (reach_init d0 d1 d2 d3 d4 d5 d6 d7)
  show ?case by (rule causes_older_init)
next
  case (reach_New s dump code message errorType)
  then show ?case by (auto simp: causes_older_def New_eq less_Suc_eq)
next
  case (reach_DefaultError s dump)
  then show ?case by (auto simp: causes_older_def DefaultError_eq less_Suc_eq)
next
  case (reach_Wrap s err dump0 dump)
  then show ?case by (auto simp: causes_older_def Wrap_eq valid_error_def less_Suc_eq)
next
  case (reach_Violations s dump violations)
  then show ?case by (auto simp: causes_older_def Violations_ctor_eq)
qed

lemma Error_method_step:
  "Err (h a) = ErrorPtr p \<Longrightarrow> Error_method h (Some a) = Error_method h p"
  by (subst Error_method_Some) simp

lemma Error_method_returns:
  "causes_older s \<Longrightarrow> a < nextp s \<Longrightarrow> \<exists>r. Error_method (heap s) (Some a) = Some r"
proof (induction a rule: less_induct)
  case (less a)
  show ?case
  proof (cases "Err (heap s a)")
    case NilError
    then show ?thesis by (simp add: Error_method_Some)
  next
    case (ErrorPtr p)
    show ?thesis
    proof (cases p)
      case None
      with ErrorPtr show ?thesis by (simp add: Error_method_step Error_method_nil)
    next
      case (Some b)
      with ErrorPtr less.prems have "b < a" by (auto simp: causes_older_def)
      moreover from this less.prems have "b < nextp s" by simp
      ultimately obtain r where "Error_method (heap s) (Some b) = Some r"
        using less.IH less.prems(1) by blast
      with ErrorPtr Some show ?thesis by (simp add: Error_method_step)
    qed
  next
    case (Foreign t v m)
    then show ?thesis by (simp add: Error_method_Some)
  qed
qed

lemma Error_method_frame:
  "causes_older s \<Longrightarrow> a < nextp s \<Longrightarrow>
   Error_method ((heap s)(nextp s := x)) (Some a) = Error_method (heap s) (Some a)"
proof (induction a rule: less_induct)
  case (less a)
  from less.prems have neq: "a \<noteq> nextp s" by simp
  show ?case
  proof (cases "Err (heap s a)")
    case NilError
    with neq show ?thesis by (simp add: Error_method_Some)
  next
    case (ErrorPtr p)
    with neq have l: "Error_method ((heap s)(nextp s := x)) (Some a) = Error_method ((heap s)(nextp s := x)) p"
      by (simp add: Error_method_step)
    from ErrorPtr have r: "Error_method (heap s) (Some a) = Error_method (heap s) p"
      by (rule Error_method_step)
    show ?thesis
    proof (cases p)
      case None
      show ?thesis by (simp only: l r None Error_method_nil)
    next
      case (Some b)
      with ErrorPtr less.prems have "b < a" by (auto simp: causes_older_def)
      moreover from this less.prems have "b < nextp s" by simp
      ultimately have ih: "Error_method ((heap s)(nextp s := x)) (Some b) = Error_method (heap s) (Some b)"
        using less.IH less.prems(1) by blast
      show ?thesis by (simp only: l r Some ih)
    qed
  next
    case (Foreign t v m)
    with neq show ?thesis by (simp add: Error_method_Some)
  qed
qed

lemma error_Error_frame:
  "causes_older s \<Longrightarrow> valid_error s c \<Longrightarrow>
   error_Error ((heap s)(nextp s := x)) c = error_Error (heap s) c"
proof (cases c)
  case NilError
  then show ?thesis by (simp add: error_Error_def)
next
  case (ErrorPtr p)
  assume "causes_older s" and "valid_error s c"
  with ErrorPtr show ?thesis
    by (cases p) (simp_all add: error_Error_def valid_error_def Error_method_frame Error_method_nil)
next
  case (Foreign t v m)
  then show ?thesis by (simp add: error_Error_def)
qed

text \<open>
  C6. \<open>Error()\<close> on a nil receiver is the empty string; on an object with a cause it is
  what the cause's own \<open>Error()\<close> gives, and the message otherwise. An error fresh from
  \<open>New\<close> (of either source file) has no cause, so its description is the message given.
  In a reachable state the call returns for every allocated object.
\<close>

theorem Error_method_description:
  "Error_method h None = Some [] \<and>
   Inr (Error_method h (Some a)) =
     (if Err (h a) \<noteq> NilError then error_Error h (Err (h a)) else Inr (Some (Message (h a)))) \<and>
   (case New dump code message errorType s of (e, s') \<Rightarrow> Error_method (heap s') (Some e)) = Some message \<and>
   (case New_alt stack code message errorType s of (e, s') \<Rightarrow> Error_method (heap s') (Some e)) = Some message \<and>
   (reachable t \<longrightarrow> b < nextp t \<longrightarrow> (\<exists>r. Error_method (heap t) (Some b) = Some r))"
proof -
  have "reachable t \<longrightarrow> b < nextp t \<longrightarrow> (\<exists>r. Error_method (heap t) (Some b) = Some r)"
    using reachable_causes_older Error_method_returns by blast
  moreover have "Inr (Error_method h (Some a)) =
     (if Err (h a) \<noteq> NilError then error_Error h (Err (h a)) else Inr (Some (Message (h a))))"
    by (simp add: Error_method_Some error_Error_def split: error.splits)
  moreover have "(case New dump code message errorType s of (e, s') \<Rightarrow> Error_method (heap s') (Some e)) = Some message"
    by (simp add: New_eq Error_method_Some)
  moreover have "(case New_alt stack code message errorType s of (e, s') \<Rightarrow> Error_method (heap s') (Some e)) = Some message"
    by (simp add: New_alt_eq Error_method_Some)
  ultimately show ?thesis
    using Error_method_nil [of h] by (intro conjI)
qed

theorem Error_method_description_witness:
  "reachable (init sample_dump_init sample_dump_init sample_dump_init sample_dump_init
                   sample_dump_init sample_dump_init sample_dump_init sample_dump_init) \<and>
   3 < nextp (init sample_dump_init sample_dump_init sample_dump_init sample_dump_init
                   sample_dump_init sample_dump_init sample_dump_init sample_dump_init) \<and>
   Error_method (heap (init sample_dump_init sample_dump_init sample_dump_init sample_dump_init
                   sample_dump_init sample_dump_init sample_dump_init sample_dump_init)) (Some 3)
     = Some ''Not found''"
proof -
  let ?i = "init sample_dump_init sample_dump_init sample_dump_init sample_dump_init
                 sample_dump_init sample_dump_init sample_dump_init sample_dump_init"
  have r: "reachable ?i" by (rule reach_init)
  have n: "3 < nextp ?i" by (simp add: init_def New_eq empty_memory_def)
  have e: "Err (heap ?i 3) = NilError" and m: "Message (heap ?i 3) = ''Not found''"
    by (simp_all add: init_def New_eq empty_memory_def)
  note unfold = Error_method_description [where h = "heap ?i" and a = 3, THEN conjunct2, THEN conjunct1]
  note returns = Error_method_description
    [where t = ?i and b = 3, THEN conjunct2, THEN conjunct2, THEN conjunct2, THEN conjunct2]
  from returns r n obtain txt' where "Error_method (heap ?i) (Some 3) = Some txt'"
    by blast
  moreover from unfold e m have "Inr (Error_method (heap ?i) (Some 3)) = Inr (Some ''Not found'')"
    by simp
  ultimately have "Error_method (heap ?i) (Some 3) = Some ''Not found''" by simp
  with r n show ?thesis by (intro conjI)
qed

text \<open>
  C7. \<open>Wrap\<close> (of either source file) returns, for every \<open>c\<close>, the nil interface included,
  an object of kind \<open>INTERNAL_SERVER_ERROR\<close>, code 500 and the fixed message, whose cause
  is \<open>c\<close>; \<open>Unwrap\<close> gives \<open>c\<close> back, and for a non-nil \<open>c\<close> the description of the
  wrapper is the description of \<open>c\<close>. In a reachable state, for an error \<open>c\<close> that exists,
  this is also the description \<open>c\<close> had before the call, and the call of \<open>Error()\<close> on
  the wrapper returns.
\<close>

theorem Wrap_fields_Unwrap_description:
  "(case Wrap dump0 dump c s of (e, s') \<Rightarrow>
      Type (heap s' e) = ''INTERNAL_SERVER_ERROR'' \<and> Code (heap s' e) = 500 \<and>
      Message (heap s' e) = ''An internal server error occurred'' \<and>
      Err (heap s' e) = c \<and> Unwrap (heap s') (Some e) = c \<and>
      (c \<noteq> NilError \<longrightarrow> Inr (Error_method (heap s') (Some e)) = error_Error (heap s') c))
   \<and>
   (case Wrap_alt stack c s of (e, s') \<Rightarrow>
      Type (heap s' e) = ''INTERNAL_SERVER_ERROR'' \<and> Code (heap s' e) = 500 \<and>
      Message (heap s' e) = ''An internal server error occurred'' \<and>
      Err (heap s' e) = c \<and> Unwrap (heap s') (Some e) = c \<and>
      (c \<noteq> NilError \<longrightarrow> Inr (Error_method (heap s') (Some e)) = error_Error (heap s') c))
   \<and>
   (reachable t \<longrightarrow> valid_error t c \<longrightarrow> c \<noteq> NilError \<longrightarrow>
      (case Wrap dump0 dump c t of (e, t') \<Rightarrow>
         Inr (Error_method (heap t') (Some e)) = error_Error (heap t) c \<and>
         (\<exists>r. Error_method (heap t') (Some e) = Some r)))"
proof -
  have post: "(case Wrap dump0 dump c s of (e, s') \<Rightarrow>
      Type (heap s' e) = ''INTERNAL_SERVER_ERROR'' \<and> Code (heap s' e) = 500 \<and>
      Message (heap s' e) = ''An internal server error occurred'' \<and>
      Err (heap s' e) = c \<and> Unwrap (heap s') (Some e) = c \<and>
      (c \<noteq> NilError \<longrightarrow> Inr (Error_method (heap s') (Some e)) = error_Error (heap s') c))"
    for s :: "'b memory_scheme"
    by (simp add: Wrap_eq Unwrap_def Error_method_Some error_Error_def split: error.splits)
  have post_alt: "(case Wrap_alt stack c s of (e, s') \<Rightarrow>
      Type (heap s' e) = ''INTERNAL_SERVER_ERROR'' \<and> Code (heap s' e) = 500 \<and>
      Message (heap s' e) = ''An internal server error occurred'' \<and>
      Err (heap s' e) = c \<and> Unwrap (heap s') (Some e) = c \<and>
      (c \<noteq> NilError \<longrightarrow> Inr (Error_method (heap s') (Some e)) = error_Error (heap s') c))"
    by (simp add: Wrap_alt_def alloc_def Unwrap_def Error_method_Some error_Error_def split: error.splits)
  have pre: "case Wrap dump0 dump c t of (e, t') \<Rightarrow>
         Inr (Error_method (heap t') (Some e)) = error_Error (heap t) c \<and>
         (\<exists>r. Error_method (heap t') (Some e) = Some r)"
    if r: "reachable t" and v: "valid_error t c" and nn: "c \<noteq> NilError"
  proof -
    from r have older: "causes_older t" by (rule reachable_causes_older)
    obtain e t' where w: "Wrap dump0 dump c t = (e, t')" by (cases "Wrap dump0 dump c t")
    then have h': "heap t' = (heap t)(nextp t := heap t' e)" and e: "e = nextp t"
      by (auto simp: Wrap_eq)
    from post [of t] w nn have "Inr (Error_method (heap t') (Some e)) = error_Error (heap t') c"
      by simp
    also from older v have "error_Error ((heap t)(nextp t := heap t' e)) c = error_Error (heap t) c"
      by (rule error_Error_frame)
    with h' have "error_Error (heap t') c = error_Error (heap t) c" by simp
    finally have eq: "Inr (Error_method (heap t') (Some e)) = error_Error (heap t) c" .
    have "\<exists>r. error_Error (heap t) c = Inr (Some r)"
    proof (cases c)
      case NilError
      with nn show ?thesis by simp
    next
      case (ErrorPtr p)
      show ?thesis
      proof (cases p)
        case None
        with ErrorPtr show ?thesis by (simp add: error_Error_def Error_method_nil)
      next
        case (Some b)
        with ErrorPtr v have "b < nextp t" by (simp add: valid_error_def)
        with older obtain r where "Error_method (heap t) (Some b) = Some r"
          using Error_method_returns by blast
        with ErrorPtr Some show ?thesis by (simp add: error_Error_def)
      qed
    next
      case (Foreign ty v m)
      then show ?thesis by (simp add: error_Error_def)
    qed
    with eq have "\<exists>r. Error_method (heap t') (Some e) = Some r" by auto
    with eq w show ?thesis by simp
  qed
  from post [of s] post_alt pre show ?thesis by blast
qed

theorem Wrap_fields_Unwrap_description_witness:
  "sample_db_down \<noteq> NilError \<and>
   (case Wrap sample_dump_New sample_dump_New sample_db_down empty_memory of
      (e, s') \<Rightarrow>
        Error_method (heap s') (Some e) = Some ''db down'' \<and>
        Unwrap (heap s') (Some e) = sample_db_down) \<and>
   reachable (init sample_dump_init sample_dump_init sample_dump_init sample_dump_init
                   sample_dump_init sample_dump_init sample_dump_init sample_dump_init) \<and>
   valid_error (init sample_dump_init sample_dump_init sample_dump_init sample_dump_init
                   sample_dump_init sample_dump_init sample_dump_init sample_dump_init)
     (ErrorPtr (Some 3)) \<and>
   ErrorPtr (Some 3) \<noteq> NilError \<and>
   (case Wrap sample_dump_New sample_dump_New (ErrorPtr (Some 3))
           (init sample_dump_init sample_dump_init sample_dump_init sample_dump_init
                 sample_dump_init sample_dump_init sample_dump_init sample_dump_init) of
      (e, t') \<Rightarrow> Error_method (heap t') (Some e) = Some ''Not found'')"
proof -
  let ?i = "init sample_dump_init sample_dump_init sample_dump_init sample_dump_init
                 sample_dump_init sample_dump_init sample_dump_init sample_dump_init"
  let ?c = sample_db_down
  have nn: "?c \<noteq> NilError" by (simp add: sample_db_down_def)
  note foreign = Wrap_fields_Unwrap_description
    [where ?dump0.0 = sample_dump_New and dump = sample_dump_New and c = ?c and s = empty_memory,
     THEN conjunct1]
  have w1: "case Wrap sample_dump_New sample_dump_New ?c empty_memory of
      (e, s') \<Rightarrow> Error_method (heap s') (Some e) = Some ''db down'' \<and> Unwrap (heap s') (Some e) = ?c"
    using foreign nn by (auto simp: error_Error_def sample_db_down_def split: prod.splits)
  have r: "reachable ?i" by (rule reach_init)
  have v: "valid_error ?i (ErrorPtr (Some 3))"
    by (simp add: valid_error_def init_def New_eq empty_memory_def)
  have p: "ErrorPtr (Some 3) \<noteq> NilError" by simp
  have d: "error_Error (heap ?i) (ErrorPtr (Some 3)) = Inr (Some ''Not found'')"
    by (simp add: error_Error_def Error_method_Some init_def New_eq empty_memory_def)
  note structured = Wrap_fields_Unwrap_description
    [where ?dump0.0 = sample_dump_New and dump = sample_dump_New and c = "ErrorPtr (Some 3)" and t = ?i,
     THEN conjunct2, THEN conjunct2]
  from structured r v p d
  have w2: "case Wrap sample_dump_New sample_dump_New (ErrorPtr (Some 3)) ?i of
      (e, t') \<Rightarrow> Error_method (heap t') (Some e) = Some ''Not found''"
    by (auto split: prod.splits)
  from nn w1 r v p w2 show ?thesis by (intro conjI)
qed

section \<open>The constructors: kind, violations, stack trace\<close>

lemma init_entry_stack:
  "StackTraces (heap (init d0 d1 d2 d3 d4 d5 d6 d7) (ErrorUnprocessableEntity (init d0 d1 d2 d3 d4 d5 d6 d7)))
     = captureStackTrace d5"
  by (simp add: init_def New_eq empty_memory_def)

lemma init_catalog_violations:
  "Violations (heap (init d0 d1 d2 d3 d4 d5 d6 d7) (ErrorBadRequest (init d0 d1 d2 d3 d4 d5 d6 d7))) = Some [] \<and>
   Violations (heap (init d0 d1 d2 d3 d4 d5 d6 d7) (ErrorUnauthorized (init d0 d1 d2 d3 d4 d5 d6 d7))) = Some [] \<and>
   Violations (heap (init d0 d1 d2 d3 d4 d5 d6 d7) (ErrorForbidden (init d0 d1 d2 d3 d4 d5 d6 d7))) = Some [] \<and>
   Violations (heap (init d0 d1 d2 d3 d4 d5 d6 d7) (ErrorNotFound (init d0 d1 d2 d3 d4 d5 d6 d7))) = Some [] \<and>
   Violations (heap (init d0 d1 d2 d3 d4 d5 d6 d7) (ErrorConflict (init d0 d1 d2 d3 d4 d5 d6 d7))) = Some [] \<and>
   Violations (heap (init d0 d1 d2 d3 d4 d5 d6 d7) (ErrorUnprocessableEntity (init d0 d1 d2 d3 d4 d5 d6 d7))) = Some [] \<and>
   Violations (heap (init d0 d1 d2 d3 d4 d5 d6 d7) (ErrorInternalServerError (init d0 d1 d2 d3 d4 d5 d6 d7))) = Some [] \<and>
   Violations (heap (init d0 d1 d2 d3 d4 d5 d6 d7) (ErrorPanic (init d0 d1 d2 d3 d4 d5 d6 d7))) = Some []"
  by (simp add: init_def New_eq empty_memory_def)

lemma init_catalog_kinds:
  "Type (heap (init d0 d1 d2 d3 d4 d5 d6 d7) (ErrorBadRequest (init d0 d1 d2 d3 d4 d5 d6 d7))) = ''BAD_REQUEST'' \<and>
   Type (heap (init d0 d1 d2 d3 d4 d5 d6 d7) (ErrorUnauthorized (init d0 d1 d2 d3 d4 d5 d6 d7))) = ''UNAUTHORIZED'' \<and>
   Type (heap (init d0 d1 d2 d3 d4 d5 d6 d7) (ErrorForbidden (init d0 d1 d2 d3 d4 d5 d6 d7))) = ''FORBIDDEN'' \<and>
   Type (heap (init d0 d1 d2 d3 d4 d5 d6 d7) (ErrorNotFound (init d0 d1 d2 d3 d4 d5 d6 d7))) = ''NOT_FOUND'' \<and>
   Type (heap (init d0 d1 d2 d3 d4 d5 d6 d7) (ErrorConflict (init d0 d1 d2 d3 d4 d5 d6 d7))) = ''CONFLICT'' \<and>
   Type (heap (init d0 d1 d2 d3 d4 d5 d6 d7) (ErrorUnprocessableEntity (init d0 d1 d2 d3 d4 d5 d6 d7))) = ''UNPROCESSABLE_ENTITY'' \<and>
   Type (heap (init d0 d1 d2 d3 d4 d5 d6 d7) (ErrorInternalServerError (init d0 d1 d2 d3 d4 d5 d6 d7))) = ''INTERNAL_SERVER_ERROR'' \<and>
   Type (heap (init d0 d1 d2 d3 d4 d5 d6 d7) (ErrorPanic (init d0 d1 d2 d3 d4 d5 d6 d7))) = ''PANIC''"
  using reachable_catalog_ok [OF reach_init, of d0 d1 d2 d3 d4 d5 d6 d7]
  by (simp add: catalog_ok_def entry_def)

lemma capture_sample_dump_init:
  "captureStackTrace sample_dump_init =
     Some [''goroutine 1 [running]:'',
           ''github.com/andryhardiyanto/go-errors.captureStackTrace()'',
           ''/go/src/go-errors/error.go:12 +0x45'',
           ''github.com/andryhardiyanto/go-errors.New(...)'',
           ''/go/src/go-errors/error.go:38 +0x9c'',
           ''github.com/andryhardiyanto/go-errors.init()'',
           ''/go/src/go-errors/errors.go:22 +0x1a5'']"
  by code_simp

lemma capture_sample_dump_Violations:
  "captureStackTrace sample_dump_Violations =
     Some [''goroutine 1 [running]:'',
           ''github.com/andryhardiyanto/go-errors.captureStackTrace()'',
           ''/go/src/go-errors/error.go:12 +0x45'',
           ''github.com/andryhardiyanto/go-errors.Violations(...)'',
           ''/go/src/go-errors/error.go:62 +0x7d'',
           ''main.main()'',
           ''/app/main.go:14 +0x5b'']"
  by code_simp

text \<open>
  C2 (the code does otherwise). After package initialisation, \<open>Violations\<close> of \<^verbatim>\<open>error.go\<close>
  with one violation returns an object of kind \<open>UNPROCESSABLE_ENTITY\<close>, code 422, message
  \<open>Unprocessable entity\<close>, without cause, holding that violation; but its stack trace is
  the one \<open>New\<close> captured during initialisation, which differs from what a capture at the
  call returns. The object is the catalog entry, whose trace is not empty, so the guard
  \<open>len(e.StackTraces) == 0\<close> skips the capture. \<open>Violations\<close> of the other source file builds
  a new object and captures at the call, for every stack and every sequence of
  violations.
\<close>

theorem Violations_ctor_returns_initial_stack:
  "(case Violations_ctor sample_dump_Violations
           (Some [\<lparr>VType = ViolationErrorTypeRequired, Field = ''email'', VMessage = ''Email is required''\<rparr>])
           (init sample_dump_init sample_dump_init sample_dump_init sample_dump_init
                 sample_dump_init sample_dump_init sample_dump_init sample_dump_init) of
      (e, s') \<Rightarrow>
        Type (heap s' e) = ''UNPROCESSABLE_ENTITY'' \<and> Code (heap s' e) = 422 \<and>
        Message (heap s' e) = ''Unprocessable entity'' \<and> Err (heap s' e) = NilError \<and>
        Violations (heap s' e) =
          Some [\<lparr>VType = ViolationErrorTypeRequired, Field = ''email'', VMessage = ''Email is required''\<rparr>] \<and>
        StackTraces (heap s' e) = captureStackTrace sample_dump_init)
   \<and>
   captureStackTrace sample_dump_init \<noteq> captureStackTrace sample_dump_Violations
   \<and>
   (case Violations_alt stack issues mem of
      (e, mem') \<Rightarrow>
        Type (heap mem' e) = ''UNPROCESSABLE_ENTITY'' \<and> Code (heap mem' e) = 422 \<and>
        Message (heap mem' e) = ''Unprocessable entity'' \<and> Err (heap mem' e) = NilError \<and>
        Violations (heap mem' e) = issues \<and>
        StackTraces (heap mem' e) = captureStackTrace_alt 1 stack)"
proof -
  let ?i = "init sample_dump_init sample_dump_init sample_dump_init sample_dump_init
                 sample_dump_init sample_dump_init sample_dump_init sample_dump_init"
  have "catalog_ok ?i"
    by (rule catalog_ok_init)
  then have k: "entry ?i (ErrorUnprocessableEntity ?i) ''UNPROCESSABLE_ENTITY'' 422 ''Unprocessable entity''"
    by (simp add: catalog_ok_def)
  have n: "len (captureStackTrace sample_dump_init) \<noteq> 0"
    by (simp add: capture_sample_dump_init len_def)
  from k n have go: "case Violations_ctor sample_dump_Violations
           (Some [\<lparr>VType = ViolationErrorTypeRequired, Field = ''email'', VMessage = ''Email is required''\<rparr>])
           ?i of
      (e, s') \<Rightarrow>
        Type (heap s' e) = ''UNPROCESSABLE_ENTITY'' \<and> Code (heap s' e) = 422 \<and>
        Message (heap s' e) = ''Unprocessable entity'' \<and> Err (heap s' e) = NilError \<and>
        Violations (heap s' e) =
          Some [\<lparr>VType = ViolationErrorTypeRequired, Field = ''email'', VMessage = ''Email is required''\<rparr>] \<and>
        StackTraces (heap s' e) = captureStackTrace sample_dump_init"
    by (simp add: entry_def Violations_ctor_eq init_entry_stack)
  have ne: "captureStackTrace sample_dump_init \<noteq> captureStackTrace sample_dump_Violations"
    by (simp add: capture_sample_dump_init capture_sample_dump_Violations)
  have alt: "case Violations_alt stack issues mem of
      (e, mem') \<Rightarrow>
        Type (heap mem' e) = ''UNPROCESSABLE_ENTITY'' \<and> Code (heap mem' e) = 422 \<and>
        Message (heap mem' e) = ''Unprocessable entity'' \<and> Err (heap mem' e) = NilError \<and>
        Violations (heap mem' e) = issues \<and>
        StackTraces (heap mem' e) = captureStackTrace_alt 1 stack"
    by (simp add: Violations_alt_def alloc_def)
  from go ne alt show ?thesis
    by (intro conjI)
qed

text \<open>
  C3, as amended. \<open>New\<close> stores the kind it is given; \<open>Wrap\<close>, \<open>DefaultError\<close>,
  \<open>Violations\<close>, the catalog entries as initialised and the factories have their fixed,
  non-empty kinds. The violations are the empty, non-nil sequence, except that
  \<open>Violations\<close> stores the sequence it is given, nil if that is nil.
\<close>

theorem constructors_kind_and_violations:
  "(case New dump code message errorType s of (e, s') \<Rightarrow>
      Type (heap s' e) = errorType \<and> Violations (heap s' e) = Some []) \<and>
   (case New_alt stack code message errorType s of (e, s') \<Rightarrow>
      Type (heap s' e) = errorType \<and> Violations (heap s' e) = Some []) \<and>
   (case Wrap dump0 dump c s of (e, s') \<Rightarrow>
      Type (heap s' e) = ''INTERNAL_SERVER_ERROR'' \<and> Violations (heap s' e) = Some []) \<and>
   (case Wrap_alt stack c s of (e, s') \<Rightarrow>
      Type (heap s' e) = ''INTERNAL_SERVER_ERROR'' \<and> Violations (heap s' e) = Some []) \<and>
   (case DefaultError dump s of (e, s') \<Rightarrow>
      Type (heap s' e) = ''INTERNAL_SERVER_ERROR'' \<and> Violations (heap s' e) = Some []) \<and>
   (case DefaultError_alt stack s of (e, s') \<Rightarrow>
      Type (heap s' e) = ''INTERNAL_SERVER_ERROR'' \<and> Violations (heap s' e) = Some []) \<and>
   (case Violations_alt stack issues s of (e, s') \<Rightarrow>
      Type (heap s' e) = ''UNPROCESSABLE_ENTITY'' \<and> Violations (heap s' e) = issues) \<and>
   (reachable t \<longrightarrow>
      (case Violations_ctor dump issues t of (e, t') \<Rightarrow>
         Type (heap t' e) = ''UNPROCESSABLE_ENTITY'' \<and> Violations (heap t' e) = issues)) \<and>
   (\<forall>g \<in> {ErrorBadRequest, ErrorUnauthorized, ErrorForbidden, ErrorNotFound, ErrorConflict,
            ErrorUnprocessableEntity, ErrorInternalServerError, ErrorPanic}.
      Type (heap (init d0 d1 d2 d3 d4 d5 d6 d7) (g (init d0 d1 d2 d3 d4 d5 d6 d7))) \<noteq> [] \<and>
      Violations (heap (init d0 d1 d2 d3 d4 d5 d6 d7) (g (init d0 d1 d2 d3 d4 d5 d6 d7))) = Some []) \<and>
   (\<forall>f \<in> {ErrorBadRequest_alt, ErrorUnauthorized_alt, ErrorForbidden_alt, ErrorNotFound_alt,
            ErrorConflict_alt, ErrorUnprocessableEntity_alt, ErrorInternalServerError_alt,
            ErrorPanic_alt}.
      case f stack s of (e, s') \<Rightarrow> Type (heap s' e) \<noteq> [] \<and> Violations (heap s' e) = Some [])"
proof -
  have ctor: "case Violations_ctor dump issues t of (e, t') \<Rightarrow>
         Type (heap t' e) = ''UNPROCESSABLE_ENTITY'' \<and> Violations (heap t' e) = issues"
    if "reachable t"
  proof -
    from that have "catalog_ok t" by (rule reachable_catalog_ok)
    then have "entry t (ErrorUnprocessableEntity t) ''UNPROCESSABLE_ENTITY'' 422 ''Unprocessable entity''"
      by (simp add: catalog_ok_def)
    then show ?thesis by (simp add: entry_def Violations_ctor_eq)
  qed
  have n1: "case New dump code message errorType s of (e, s') \<Rightarrow>
      Type (heap s' e) = errorType \<and> Violations (heap s' e) = Some []"
    by (simp add: New_eq)
  have n2: "case New_alt stack code message errorType s of (e, s') \<Rightarrow>
      Type (heap s' e) = errorType \<and> Violations (heap s' e) = Some []"
    by (simp add: New_alt_eq)
  have w1: "case Wrap dump0 dump c s of (e, s') \<Rightarrow>
      Type (heap s' e) = ''INTERNAL_SERVER_ERROR'' \<and> Violations (heap s' e) = Some []"
    by (simp add: Wrap_eq)
  have w2: "case Wrap_alt stack c s of (e, s') \<Rightarrow>
      Type (heap s' e) = ''INTERNAL_SERVER_ERROR'' \<and> Violations (heap s' e) = Some []"
    by (simp add: Wrap_alt_def alloc_def)
  have e1: "case DefaultError dump s of (e, s') \<Rightarrow>
      Type (heap s' e) = ''INTERNAL_SERVER_ERROR'' \<and> Violations (heap s' e) = Some []"
    by (simp add: DefaultError_eq)
  have e2: "case DefaultError_alt stack s of (e, s') \<Rightarrow>
      Type (heap s' e) = ''INTERNAL_SERVER_ERROR'' \<and> Violations (heap s' e) = Some []"
    by (simp add: DefaultError_alt_def alloc_def)
  have v2: "case Violations_alt stack issues s of (e, s') \<Rightarrow>
      Type (heap s' e) = ''UNPROCESSABLE_ENTITY'' \<and> Violations (heap s' e) = issues"
    by (simp add: Violations_alt_def alloc_def)
  have cat: "\<forall>g \<in> {ErrorBadRequest, ErrorUnauthorized, ErrorForbidden, ErrorNotFound, ErrorConflict,
            ErrorUnprocessableEntity, ErrorInternalServerError, ErrorPanic}.
      Type (heap (init d0 d1 d2 d3 d4 d5 d6 d7) (g (init d0 d1 d2 d3 d4 d5 d6 d7))) \<noteq> [] \<and>
      Violations (heap (init d0 d1 d2 d3 d4 d5 d6 d7) (g (init d0 d1 d2 d3 d4 d5 d6 d7))) = Some []"
    using init_catalog_kinds [of d0 d1 d2 d3 d4 d5 d6 d7]
      init_catalog_violations [of d0 d1 d2 d3 d4 d5 d6 d7]
    by auto
  have fac: "\<forall>f \<in> {ErrorBadRequest_alt, ErrorUnauthorized_alt, ErrorForbidden_alt, ErrorNotFound_alt,
            ErrorConflict_alt, ErrorUnprocessableEntity_alt, ErrorInternalServerError_alt,
            ErrorPanic_alt}.
      case f stack s of (e, s') \<Rightarrow> Type (heap s' e) \<noteq> [] \<and> Violations (heap s' e) = Some []"
    using factories_alt [of stack s] by auto
  from ctor have viol: "reachable t \<longrightarrow>
      (case Violations_ctor dump issues t of (e, t') \<Rightarrow>
         Type (heap t' e) = ''UNPROCESSABLE_ENTITY'' \<and> Violations (heap t' e) = issues)"
    by (rule impI)
  from n1 n2 w1 w2 e1 e2 v2 viol cat fac show ?thesis
    by (intro conjI)
qed

theorem constructors_kind_and_violations_witness:
  "reachable (init sample_dump_init sample_dump_init sample_dump_init sample_dump_init
                   sample_dump_init sample_dump_init sample_dump_init sample_dump_init) \<and>
   (case Violations_ctor sample_dump_Violations None
           (init sample_dump_init sample_dump_init sample_dump_init sample_dump_init
                 sample_dump_init sample_dump_init sample_dump_init sample_dump_init) of
      (e, t') \<Rightarrow> Type (heap t' e) = ''UNPROCESSABLE_ENTITY'' \<and> Violations (heap t' e) = None) \<and>
   ErrorNotFound \<in> {ErrorBadRequest, ErrorUnauthorized, ErrorForbidden, ErrorNotFound, ErrorConflict,
            ErrorUnprocessableEntity, ErrorInternalServerError, ErrorPanic} \<and>
   Violations (heap (init sample_dump_init sample_dump_init sample_dump_init sample_dump_init
                   sample_dump_init sample_dump_init sample_dump_init sample_dump_init)
      (ErrorNotFound (init sample_dump_init sample_dump_init sample_dump_init sample_dump_init
                   sample_dump_init sample_dump_init sample_dump_init sample_dump_init))) = Some [] \<and>
   ErrorNotFound_alt \<in> {ErrorBadRequest_alt, ErrorUnauthorized_alt, ErrorForbidden_alt, ErrorNotFound_alt,
            ErrorConflict_alt, ErrorUnprocessableEntity_alt, ErrorInternalServerError_alt,
            ErrorPanic_alt} \<and>
   (case ErrorNotFound_alt (sample_stack_main ''ErrorNotFound'' 139) empty_memory of
      (e, s') \<Rightarrow> Type (heap s' e) \<noteq> [] \<and> Violations (heap s' e) = Some [])"
proof -
  let ?i = "init sample_dump_init sample_dump_init sample_dump_init sample_dump_init
                 sample_dump_init sample_dump_init sample_dump_init sample_dump_init"
  have r: "reachable ?i" by (rule reach_init)
  have m1: "ErrorNotFound \<in> {ErrorBadRequest, ErrorUnauthorized, ErrorForbidden, ErrorNotFound, ErrorConflict,
            ErrorUnprocessableEntity, ErrorInternalServerError, ErrorPanic}"
    by simp
  have m2: "ErrorNotFound_alt \<in> {ErrorBadRequest_alt, ErrorUnauthorized_alt, ErrorForbidden_alt, ErrorNotFound_alt,
            ErrorConflict_alt, ErrorUnprocessableEntity_alt, ErrorInternalServerError_alt,
            ErrorPanic_alt}"
    by simp
  note inst = constructors_kind_and_violations
    [where t = ?i and dump = sample_dump_Violations and issues = None
       and stack = "sample_stack_main ''ErrorNotFound'' 139" and s = empty_memory and code = 404
       and message = "''Not found''" and errorType = "''NOT_FOUND''" and ?dump0.0 = sample_dump_init
       and c = NilError
       and ?d0.0 = sample_dump_init and ?d1.0 = sample_dump_init and ?d2.0 = sample_dump_init
       and ?d3.0 = sample_dump_init and ?d4.0 = sample_dump_init and ?d5.0 = sample_dump_init
       and ?d6.0 = sample_dump_init and ?d7.0 = sample_dump_init]
  from inst have v: "reachable ?i \<longrightarrow>
      (case Violations_ctor sample_dump_Violations None ?i of
         (e, t') \<Rightarrow> Type (heap t' e) = ''UNPROCESSABLE_ENTITY'' \<and> Violations (heap t' e) = None)"
    by (elim conjE)
  from inst have g: "\<forall>g \<in> {ErrorBadRequest, ErrorUnauthorized, ErrorForbidden, ErrorNotFound, ErrorConflict,
            ErrorUnprocessableEntity, ErrorInternalServerError, ErrorPanic}.
      Type (heap ?i (g ?i)) \<noteq> [] \<and> Violations (heap ?i (g ?i)) = Some []"
    by (elim conjE)
  from inst have f: "\<forall>f \<in> {ErrorBadRequest_alt, ErrorUnauthorized_alt, ErrorForbidden_alt, ErrorNotFound_alt,
            ErrorConflict_alt, ErrorUnprocessableEntity_alt, ErrorInternalServerError_alt,
            ErrorPanic_alt}.
      case f (sample_stack_main ''ErrorNotFound'' 139) empty_memory of
        (e, s') \<Rightarrow> Type (heap s' e) \<noteq> [] \<and> Violations (heap s' e) = Some []"
    by (elim conjE)
  from v r have c1: "case Violations_ctor sample_dump_Violations None ?i of
         (e, t') \<Rightarrow> Type (heap t' e) = ''UNPROCESSABLE_ENTITY'' \<and> Violations (heap t' e) = None"
    by (rule mp)
  from bspec [OF g m1] have c2: "Violations (heap ?i (ErrorNotFound ?i)) = Some []"
    by (rule conjunct2)
  note c3 = bspec [OF f m2]
  from r c1 m1 c2 m2 c3 show ?thesis
    by (intro conjI)
qed

text \<open>
  The claim as stated fails: \<open>New\<close> with the empty string as kind returns an error whose
  kind is empty, and \<open>Violations\<close> with the nil slice returns one whose violations are nil.
\<close>

theorem empty_kind_nil_violations_counterexample:
  "Type (heap (snd (New sample_dump_New 404 ''Not found'' [] empty_memory))
              (fst (New sample_dump_New 404 ''Not found'' [] empty_memory))) = [] \<and>
   Violations (heap (snd (Violations_alt (sample_stack_main ''Violations'' 93) None empty_memory))
                    (fst (Violations_alt (sample_stack_main ''Violations'' 93) None empty_memory))) = None"
  by (simp add: New_eq Violations_alt_def alloc_def)

section \<open>What the stack capture returns\<close>

lemma frames_loop_eq:
  "pcs \<noteq> [] \<Longrightarrow> frames_loop pcs acc = acc @ map render (filter isRelevantFrame pcs)"
proof (induction pcs arbitrary: acc)
  case Nil
  then show ?case by simp
next
  case (Cons f rest)
  show ?case
  proof (cases "rest = []")
    case True
    then show ?thesis by (subst frames_loop.simps) (simp add: Next_def)
  next
    case False
    then show ?thesis
      using Cons.IH [OF False] by (subst frames_loop.simps) (simp add: Next_def)
  qed
qed

lemma captureStackTrace_alt_eq:
  "captureStackTrace_alt skip stack =
     Some (map render (filter isRelevantFrame (take 32 (drop (skip + 2) stack))))"
proof (cases "take 32 (drop (skip + 2) stack) = []")
  case True
  then show ?thesis
    by (simp add: captureStackTrace_alt_def runtime_Callers_def Let_def)
next
  case False
  then show ?thesis
    by (simp add: captureStackTrace_alt_def runtime_Callers_def Let_def frames_loop_eq)
qed

lemma collect_lines_eq:
  "collect_lines lines acc = acc @ filter (\<lambda>l. l \<noteq> []) (map TrimSpace lines)"
  by (induction lines arbitrary: acc) (simp_all add: Let_def)

lemma captureStackTrace_eq:
  "captureStackTrace dump = Some (filter (\<lambda>l. l \<noteq> []) (map TrimSpace (Split (take 4096 dump))))"
  by (simp add: captureStackTrace_def runtime_Stack_def Let_def collect_lines_eq)

lemma Split_nonempty: "Split s \<noteq> []"
  by (induction s) (auto split: list.splits)

lemma Split_size: "length (concat (Split s)) + length (Split s) = Suc (length s)"
proof (induction s)
  case Nil
  then show ?case by simp
next
  case (Cons c cs)
  then show ?case using Split_nonempty [of cs]
    by (cases "Split cs") auto
qed

lemma TrimSpace_Nil: "TrimSpace [] = []"
  by (simp add: TrimSpace_def TrimLeft.simps TrimRight.simps leading_space_def trailing_space_def
        HasPrefix_def HasSuffix_def space_runes_def)

lemma count_nonblank:
  "2 * length (filter (\<lambda>l. l \<noteq> []) (map TrimSpace ls)) \<le> length (concat ls) + length ls"
proof (induction ls)
  case Nil
  then show ?case by simp
next
  case (Cons l ls)
  show ?case
  proof (cases "TrimSpace l = []")
    case True
    with Cons show ?thesis by simp
  next
    case False
    then have "l \<noteq> []" using TrimSpace_Nil by auto
    then have "1 \<le> length l" by (cases l) auto
    with Cons False show ?thesis by simp
  qed
qed

lemma captureStackTrace_bound: "len (captureStackTrace dump) \<le> 2048"
proof -
  let ?s = "take 4096 dump"
  have "2 * length (filter (\<lambda>l. l \<noteq> []) (map TrimSpace (Split ?s))) \<le> Suc (length ?s)"
    using count_nonblank [of "Split ?s"] Split_size [of ?s] by simp
  moreover have "length ?s \<le> 4096" by simp
  ultimately show ?thesis
    by (simp add: captureStackTrace_eq len_def)
qed

text \<open>
  C8, as amended. Both captures are total and return a non-nil sequence of strings. The
  capture of the other source file renders, in order, those of the first 32 frames above
  the skipped ones that \<open>isRelevantFrame\<close> keeps: at most 32 strings, none if no frame is
  left after skipping. Called with \<open>skip = 1\<close> from a constructor it skips the frames of
  \<open>runtime.Callers\<close>, of itself and of the constructor, so the first string is the frame of
  the constructor's caller whenever that frame is relevant. The capture of \<^verbatim>\<open>error.go\<close>
  returns the trimmed non-blank lines of the first 4096 bytes of the dump, at most 2048 of
  them.
\<close>

theorem capture_total_and_bounded:
  "captureStackTrace_alt skip stack =
     Some (map render (filter isRelevantFrame (take 32 (drop (skip + 2) stack)))) \<and>
   len (captureStackTrace_alt skip stack) \<le> 32 \<and>
   (length stack \<le> skip + 2 \<longrightarrow> captureStackTrace_alt skip stack = Some []) \<and>
   captureStackTrace_alt 1 (callers # capture # ctor # rest) =
     Some (map render (filter isRelevantFrame (take 32 rest))) \<and>
   (isRelevantFrame f \<longrightarrow>
      (\<exists>later. captureStackTrace_alt 1 (callers # capture # ctor # f # fs) = Some (render f # later))) \<and>
   captureStackTrace dump =
     Some (filter (\<lambda>l. l \<noteq> []) (map TrimSpace (Split (take 4096 dump)))) \<and>
   len (captureStackTrace dump) \<le> 2048"
proof -
  have a: "len (captureStackTrace_alt skip stack) \<le> 32"
  proof -
    have "length (filter isRelevantFrame (take 32 (drop (skip + 2) stack)))
            \<le> length (take 32 (drop (skip + 2) stack))"
      by (rule length_filter_le)
    then show ?thesis by (simp add: captureStackTrace_alt_eq len_def)
  qed
  have b: "length stack \<le> skip + 2 \<longrightarrow> captureStackTrace_alt skip stack = Some []"
    by (simp add: captureStackTrace_alt_eq)
  have c: "captureStackTrace_alt 1 (callers # capture # ctor # rest) =
     Some (map render (filter isRelevantFrame (take 32 rest)))"
    by (simp add: captureStackTrace_alt_eq)
  have d: "isRelevantFrame f \<longrightarrow>
      (\<exists>later. captureStackTrace_alt 1 (callers # capture # ctor # f # fs) = Some (render f # later))"
    by (simp add: captureStackTrace_alt_eq)
  from a b c d captureStackTrace_alt_eq captureStackTrace_eq captureStackTrace_bound
  show ?thesis by blast
qed

theorem capture_total_and_bounded_witness:
  "isRelevantFrame \<lparr>File = ''/app/main.go'', Line = 14, Function = ''main.main''\<rparr> \<and>
   captureStackTrace_alt 1 (sample_stack_main ''Violations'' 93) = Some [''/app/main.go:14 main.main''] \<and>
   length (take 3 (sample_stack_main ''Violations'' 93)) \<le> 1 + 2 \<and>
   captureStackTrace_alt 1 (take 3 (sample_stack_main ''Violations'' 93)) = Some []"
proof -
  have rel: "isRelevantFrame \<lparr>File = ''/app/main.go'', Line = 14, Function = ''main.main''\<rparr>"
    by (simp add: isRelevantFrame_def HasPrefix_def)
  have short: "length (take 3 (sample_stack_main ''Violations'' 93)) \<le> 1 + 2"
    by simp
  have "captureStackTrace_alt 1 (sample_stack_main ''Violations'' 93) =
          Some (map render (filter isRelevantFrame (take 32 (drop (1 + 2) (sample_stack_main ''Violations'' 93)))))"
    using capture_total_and_bounded [where skip = 1 and stack = "sample_stack_main ''Violations'' 93"] by blast
  then have full: "captureStackTrace_alt 1 (sample_stack_main ''Violations'' 93) = Some [''/app/main.go:14 main.main'']"
    by (simp add: sample_stack_main_def isRelevantFrame_def HasPrefix_def render_def Sprintf_d_def
          digits.simps digit_def)
  have "captureStackTrace_alt 1 (take 3 (sample_stack_main ''Violations'' 93)) = Some []"
    using capture_total_and_bounded [where skip = 1 and stack = "take 3 (sample_stack_main ''Violations'' 93)"] short
    by blast
  with rel short full show ?thesis by blast
qed

text \<open>
  The claim as stated fails. The capture of \<^verbatim>\<open>error.go\<close>, called from \<open>New\<close>, returns the
  header line of the dump first, then its own frame and that of \<open>New\<close>, two lines each,
  before the caller's. The capture of the other source file returns nothing when the
  constructor's caller is \<open>runtime.goexit\<close>.
\<close>

theorem capture_own_frames_counterexample:
  "captureStackTrace sample_dump_New =
     Some [''goroutine 1 [running]:'',
           ''github.com/andryhardiyanto/go-errors.captureStackTrace()'',
           ''/go/src/go-errors/error.go:12 +0x45'',
           ''github.com/andryhardiyanto/go-errors.New(...)'',
           ''/go/src/go-errors/error.go:38 +0x9c'',
           ''main.main()'',
           ''/app/main.go:9 +0x3a''] \<and>
   captureStackTrace_alt 1 (sample_stack_go ''Violations'' 93) = Some []"
  by code_simp

section \<open>The examples and tests of the repository\<close>

text \<open>
  What \<^verbatim>\<open>example_test.go\<close> prints and checks, computed in the model: \<open>ExampleNew\<close>,
  \<open>ExampleErrorNotFound\<close> with \<open>TestPredefinedErrors\<close>, \<open>ExampleWrap\<close>, \<open>TestErrorInterface\<close>
  and \<open>TestValidationErrors\<close>.
\<close>

lemma example_New:
  "(case New sample_dump_New 404 ''Not found'' ''NOT_FOUND'' s of
      (err, s') \<Rightarrow> Error_method (heap s') (Some err)) = Some ''Not found''"
  by (simp add: New_eq Error_method_Some)

lemma example_ErrorNotFound:
  "Code (heap (init d0 d1 d2 d3 d4 d5 d6 d7) (ErrorNotFound (init d0 d1 d2 d3 d4 d5 d6 d7))) = 404 \<and>
   Message (heap (init d0 d1 d2 d3 d4 d5 d6 d7) (ErrorNotFound (init d0 d1 d2 d3 d4 d5 d6 d7))) = ''Not found'' \<and>
   Type (heap (init d0 d1 d2 d3 d4 d5 d6 d7) (ErrorNotFound (init d0 d1 d2 d3 d4 d5 d6 d7))) = ''NOT_FOUND'' \<and>
   Code (heap (init d0 d1 d2 d3 d4 d5 d6 d7) (ErrorUnauthorized (init d0 d1 d2 d3 d4 d5 d6 d7))) = 401"
  using reachable_catalog_ok [OF reach_init, of d0 d1 d2 d3 d4 d5 d6 d7]
  by (simp add: catalog_ok_def entry_def)

lemma example_Wrap:
  "(case Wrap dump0 dump (Foreign (DynType ''*errors.errorString'' TPointer) (VPointer (Some 1)) ''database connection failed'') s of
      (err, s') \<Rightarrow>
        Error_method (heap s') (Some err) = Some ''database connection failed'' \<and>
        error_Error (heap s') (Unwrap (heap s') (Some err)) = Inr (Some ''database connection failed''))"
  by (simp add: Wrap_eq Error_method_Some Unwrap_def error_Error_def)

lemma test_ErrorInterface:
  "(case New d1 404 ''Not found'' ''NOT_FOUND'' s of (err, s1) \<Rightarrow>
    case New d2 404 ''Not found'' ''NOT_FOUND'' s1 of (anotherNotFound, s2) \<Rightarrow>
    case New d3 400 ''Bad request'' ''BAD_REQUEST'' s2 of (differentErr, s3) \<Rightarrow>
    case Wrap d4 d5 (Foreign (DynType ''*errors.errorString'' TPointer) (VPointer (Some 1)) ''original error'') s3 of (wrappedErr, s4) \<Rightarrow>
      Error_method (heap s4) (Some err) \<noteq> Some [] \<and>
      Is (heap s4) (Some err) (ErrorPtr (Some anotherNotFound)) = Inr True \<and>
      Is (heap s4) (Some err) (ErrorPtr (Some differentErr)) = Inr False \<and>
      iface_eq (Unwrap (heap s4) (Some wrappedErr))
               (Foreign (DynType ''*errors.errorString'' TPointer) (VPointer (Some 1)) ''original error'') = Inr True)"
  by (simp add: New_eq Wrap_eq Error_method_Some Is_def Unwrap_def)

lemma test_ValidationErrors:
  "(case Violations_ctor d
      (Some [\<lparr>VType = ViolationErrorTypeRequired, Field = ''email'', VMessage = ''Email is required''\<rparr>,
             \<lparr>VType = ViolationErrorTypeEmail, Field = ''email'', VMessage = ''Invalid email format''\<rparr>]) s of
      (err, s') \<Rightarrow>
        len (Violations (heap s' err)) = 2 \<and>
        VType (elems (Violations (heap s' err)) ! 0) = ViolationErrorTypeRequired)"
  by (simp add: Violations_ctor_eq len_def elems_def)

end
